theory Spec2Isabelle
  imports Main "HOL-Library.Word"
begin

section \<open>Nested transactions over one database transaction (transaction.go)\<close>

text \<open>
  The coordinator of \<^verbatim>\<open>transaction.go\<close> maps the first \<^verbatim>\<open>StartTransaction\<close> of a call
  chain onto a real database transaction and every later one onto a savepoint. The
  embedding is sequential: every Go function becomes a function from the world before
  the call to the result and the world after it.
\<close>

subsection \<open>Errors, driver calls and the data of the program\<close>

text \<open>
  \<^verbatim>\<open>qerror.Errorf(msg)\<close> is \<open>QError msg\<close>; whatever the SQL driver returns as an error
  is \<open>DriverError\<close> with its text.
\<close>

datatype error = QError string | DriverError string

text \<open>Pointers are addresses: \<^verbatim>\<open>*sql.Tx\<close> and \<^verbatim>\<open>*transaction\<close>.\<close>

type_synonym tx_ptr = nat
type_synonym trans_ptr = nat

text \<open>
  The four calls the code makes on the connection and on the real transaction:
  \<^verbatim>\<open>s.db.Begin()\<close>, \<^verbatim>\<open>t.tx.Exec(sql)\<close>, \<^verbatim>\<open>t.tx.Commit()\<close>, \<^verbatim>\<open>t.tx.Rollback()\<close>.
\<close>

datatype db_call = DbBegin | TxExec tx_ptr string | TxCommit tx_ptr | TxRollback tx_ptr

text \<open>
  The statement a call stands for; for the three calls that carry no text it is the word
  the code prints before the call when \<^verbatim>\<open>debugSQL\<close> is set.
\<close>

fun sql_of :: "db_call \<Rightarrow> string" where
  "sql_of DbBegin = ''BEGIN''"
| "sql_of (TxExec t q) = q"
| "sql_of (TxCommit t) = ''COMMIT''"
| "sql_of (TxRollback t) = ''ROLLBACK''"

text \<open>
  The driver is outside the repository: it answers a call, given the calls made so far,
  with no error (\<open>None\<close>) or with an error.
\<close>

type_synonym driver = "db_call list \<Rightarrow> db_call \<Rightarrow> error option"

text \<open>
  \<^verbatim>\<open>type transaction struct { tx *sql.Tx; savePoint uint64; savePointMtx sync.Mutex }\<close>.
  The mutex has no field here: in a sequential run \<^verbatim>\<open>Lock\<close> finds it free and the
  deferred \<^verbatim>\<open>Unlock\<close> frees it again before the function returns.
\<close>

record transaction =
  tx :: tx_ptr
  savePoint :: "64 word"

text \<open>
  A \<^verbatim>\<open>context.Context\<close> is an immutable chain of bindings, the newest first. Under the
  coordinator's key the code stores a \<^verbatim>\<open>*transaction\<close> or the nil interface value.
\<close>

datatype ctx_val = NilVal | Trans trans_ptr

type_synonym ctx = "(string \<times> ctx_val) list"

definition ctx_Value :: "ctx \<Rightarrow> string \<Rightarrow> ctx_val" where
  "ctx_Value c k = (case map_of c k of None \<Rightarrow> NilVal | Some v \<Rightarrow> v)"

definition WithValue :: "ctx \<Rightarrow> string \<Rightarrow> ctx_val \<Rightarrow> ctx" where
  "WithValue c k v = (k, v) # c"

text \<open>
  \<^verbatim>\<open>timelog.Start\<close> and \<^verbatim>\<open>timelog.Finish\<close> belong to another package, which keeps its
  data under a key of its own type; no lookup of a string key sees them.
\<close>

definition timelog_Start :: "ctx \<Rightarrow> string \<Rightarrow> ctx" where
  "timelog_Start c name = c"

definition timelog_Finish :: "ctx \<Rightarrow> ctx" where
  "timelog_Finish c = c"

text \<open>
  The world: the store of \<^verbatim>\<open>transaction\<close> values with its allocation pointer, the number
  of \<^verbatim>\<open>sql.Tx\<close> objects handed out by \<^verbatim>\<open>Begin\<close>, every call made on the driver, oldest
  first, and the package variable \<^verbatim>\<open>debugSQL\<close> with what \<^verbatim>\<open>println\<close> has written.
\<close>

record world =
  heap :: "trans_ptr \<Rightarrow> transaction"
  next_trans :: trans_ptr
  next_tx :: tx_ptr
  calls :: "db_call list"
  debugSQL :: bool
  stderr :: "string list"

text \<open>The coordinator \<^verbatim>\<open>*MySQL\<close>: its own address and its connection.\<close>

record MySQL =
  self :: "64 word"
  db :: driver

subsection \<open>\<^verbatim>\<open>strconv.FormatUint(n, 10)\<close>, \<^verbatim>\<open>strconv.FormatInt(i, 10)\<close> and the context key\<close>

definition digit_char :: "nat \<Rightarrow> char" where
  "digit_char d = ''0123456789'' ! d"

fun FormatUint :: "nat \<Rightarrow> string" where
  "FormatUint n = (if n < 10 then [digit_char n]
                   else FormatUint (n div 10) @ [digit_char (n mod 10)])"

declare FormatUint.simps [simp del]

definition FormatInt :: "int \<Rightarrow> string" where
  "FormatInt i = (if i < 0 then ''-'' @ FormatUint (nat (- i)) else FormatUint (nat i))"

definition ctx_transaction_key :: string where
  "ctx_transaction_key = ''MYSQL_TRANSACTION''"

text \<open>\<^verbatim>\<open>ctx_transaction_key + strconv.FormatInt(int64(uintptr(unsafe.Pointer(s))), 10)\<close>\<close>

definition transactionKey :: "MySQL \<Rightarrow> string" where
  "transactionKey s = ctx_transaction_key @ FormatInt (sint (self s))"

subsection \<open>Effects\<close>

text \<open>\<^verbatim>\<open>if debugSQL { println(msg) }\<close>\<close>

definition debug_println :: "string \<Rightarrow> world \<Rightarrow> world" where
  "debug_println msg w = (if debugSQL w then w\<lparr>stderr := stderr w @ [msg]\<rparr> else w)"

text \<open>A call on the driver: it is recorded, and the driver answers from the calls before it.\<close>

definition db_do :: "MySQL \<Rightarrow> db_call \<Rightarrow> world \<Rightarrow> error option \<times> world" where
  "db_do s c w = (db s (calls w) c, w\<lparr>calls := calls w @ [c]\<rparr>)"

text \<open>\<^verbatim>\<open>s.db.Begin()\<close>: on success a new \<^verbatim>\<open>*sql.Tx\<close>.\<close>

definition db_Begin :: "MySQL \<Rightarrow> world \<Rightarrow> (error + tx_ptr) \<times> world" where
  "db_Begin s w =
     (case db_do s DbBegin w of
        (Some err, w') \<Rightarrow> (Inl err, w')
      | (None, w') \<Rightarrow> (Inr (next_tx w'), w'\<lparr>next_tx := Suc (next_tx w')\<rparr>))"

text \<open>\<^verbatim>\<open>&transaction{tx: tx}\<close>: a new cell, \<^verbatim>\<open>savePoint\<close> zero.\<close>

definition new_transaction :: "tx_ptr \<Rightarrow> world \<Rightarrow> trans_ptr \<times> world" where
  "new_transaction x w =
     (next_trans w,
      w\<lparr>heap := (heap w)(next_trans w := \<lparr>tx = x, savePoint = 0\<rparr>),
        next_trans := Suc (next_trans w)\<rparr>)"

definition set_savePoint :: "trans_ptr \<Rightarrow> 64 word \<Rightarrow> world \<Rightarrow> world" where
  "set_savePoint p v w = w\<lparr>heap := (heap w)(p := (heap w p)\<lparr>savePoint := v\<rparr>)\<rparr>"

subsection \<open>The operations\<close>

text \<open>
  A Go result \<^verbatim>\<open>(context.Context, error)\<close> is a pair of two values that can each be nil.
\<close>

type_synonym result = "ctx option \<times> error option"

definition StartTransaction :: "MySQL \<Rightarrow> ctx \<Rightarrow> world \<Rightarrow> result \<times> world" where
  "StartTransaction s c w =
     (case ctx_Value c (transactionKey s) of
        NilVal \<Rightarrow>
          (let w1 = debug_println ''BEGIN'' w;
               c1 = timelog_Start c ''BEGIN'';
               (r, w2) = db_Begin s w1;
               c2 = timelog_Finish c1
           in case r of
                Inl err \<Rightarrow> ((None, Some err), w2)
              | Inr x \<Rightarrow>
                  (let (p, w3) = new_transaction x w2
                   in ((Some (WithValue c2 (transactionKey s) (Trans p)), None), w3)))
      | Trans p \<Rightarrow>
          (let w1 = set_savePoint p (savePoint (heap w p) + 1) w;
               q = ''SAVEPOINT SP'' @ FormatUint (unat (savePoint (heap w1 p)));
               w2 = debug_println q w1;
               (r, w3) = db_do s (TxExec (tx (heap w2 p)) q) w2
           in case r of
                Some err \<Rightarrow> ((None, Some err), w3)
              | None \<Rightarrow> ((Some c, None), w3)))"

definition UseTransaction :: "MySQL \<Rightarrow> ctx \<Rightarrow> tx_ptr option \<Rightarrow> world \<Rightarrow> result \<times> world" where
  "UseTransaction s c x w =
     (case x of
        None \<Rightarrow> ((None, Some (QError ''No transaction provided'')), w)
      | Some x' \<Rightarrow>
          (case ctx_Value c (transactionKey s) of
             Trans p \<Rightarrow> ((None, Some (QError ''Transaction already started'')), w)
           | NilVal \<Rightarrow>
               (let (p, w1) = new_transaction x' w
                in ((Some (WithValue c (transactionKey s) (Trans p)), None), w1))))"

definition Commit :: "MySQL \<Rightarrow> ctx \<Rightarrow> world \<Rightarrow> result \<times> world" where
  "Commit s c w =
     (case ctx_Value c (transactionKey s) of
        NilVal \<Rightarrow> ((None, Some (QError ''No started transaction'')), w)
      | Trans p \<Rightarrow>
          if savePoint (heap w p) > 0 then
            (let q = ''RELEASE SAVEPOINT SP'' @ FormatUint (unat (savePoint (heap w p)));
                 w1 = debug_println q w;
                 (r, w2) = db_do s (TxExec (tx (heap w1 p)) q) w1
             in case r of
                  Some err \<Rightarrow> ((None, Some err), w2)
                | None \<Rightarrow> ((Some c, None), set_savePoint p (savePoint (heap w2 p) - 1) w2))
          else
            (let w1 = debug_println ''COMMIT'' w;
                 c1 = timelog_Start c ''COMMIT'';
                 (r, w2) = db_do s (TxCommit (tx (heap w1 p))) w1;
                 c2 = timelog_Finish c1
             in case r of
                  Some err \<Rightarrow> ((None, Some err), w2)
                | None \<Rightarrow> ((Some (WithValue c2 (transactionKey s) NilVal), None), w2)))"

definition Rollback :: "MySQL \<Rightarrow> ctx \<Rightarrow> world \<Rightarrow> result \<times> world" where
  "Rollback s c w =
     (case ctx_Value c (transactionKey s) of
        NilVal \<Rightarrow> ((None, Some (QError ''No started transaction'')), w)
      | Trans p \<Rightarrow>
          if savePoint (heap w p) > 0 then
            (let q = ''ROLLBACK TO SAVEPOINT SP'' @ FormatUint (unat (savePoint (heap w p)));
                 w1 = debug_println q w;
                 (r, w2) = db_do s (TxExec (tx (heap w1 p)) q) w1
             in case r of
                  Some err \<Rightarrow> ((None, Some err), w2)
                | None \<Rightarrow> ((Some c, None), set_savePoint p (savePoint (heap w2 p) - 1) w2))
          else
            (let w1 = debug_println ''ROLLBACK'' w;
                 c1 = timelog_Start c ''ROLLBACK'';
                 (r, w2) = db_do s (TxRollback (tx (heap w1 p))) w1;
                 c2 = timelog_Finish c1
             in case r of
                  Some err \<Rightarrow> ((None, Some err), w2)
                | None \<Rightarrow> ((Some (WithValue c2 (transactionKey s) NilVal), None), w2)))"

definition GetTransaction :: "MySQL \<Rightarrow> ctx \<Rightarrow> world \<Rightarrow> tx_ptr option" where
  "GetTransaction s c w =
     (case ctx_Value c (transactionKey s) of
        NilVal \<Rightarrow> None
      | Trans p \<Rightarrow> Some (tx (heap w p)))"

text \<open>
  \<^verbatim>\<open>DoInTransaction\<close> hands the context it got from \<^verbatim>\<open>StartTransaction\<close> to \<^verbatim>\<open>f\<close> and then
  to \<^verbatim>\<open>Rollback\<close> or \<^verbatim>\<open>Commit\<close>, whose first step \<^verbatim>\<open>ctx.Value\<close> panics on a nil
  context. \<^verbatim>\<open>f\<close> is any function of the caller: it gets the context, may change the
  world, and returns an error or nil.
\<close>

datatype 'a outcome = Returns 'a | Panics

definition DoInTransaction ::
  "MySQL \<Rightarrow> ctx \<Rightarrow> (ctx \<Rightarrow> world \<Rightarrow> error option \<times> world) \<Rightarrow> world
     \<Rightarrow> error option outcome \<times> world" where
  "DoInTransaction s c f w =
     (case StartTransaction s c w of
        ((c1, Some err), w1) \<Rightarrow> (Returns (Some err), w1)
      | ((None, None), w1) \<Rightarrow> (Panics, w1)
      | ((Some c1, None), w1) \<Rightarrow>
          (case f c1 w1 of
             (Some err, w2) \<Rightarrow> (Returns (Some err), snd (Rollback s c1 w2))
           | (None, w2) \<Rightarrow>
               (case Commit s c1 w2 of
                  ((c2, Some err), w3) \<Rightarrow> (Returns (Some err), snd (Rollback s c1 w3))
                | ((c2, None), w3) \<Rightarrow> (Returns None, w3))))"

subsection \<open>Call sequences\<close>

text \<open>
  A caller's straight-line use of the coordinator: each call gets the context the call
  before it returned, and the sequence stops at the first call that returns an error.
\<close>

datatype op = OpStart | OpCommit | OpRollback

fun apply_op :: "MySQL \<Rightarrow> op \<Rightarrow> ctx \<Rightarrow> world \<Rightarrow> result \<times> world" where
  "apply_op s OpStart c w = StartTransaction s c w"
| "apply_op s OpCommit c w = Commit s c w"
| "apply_op s OpRollback c w = Rollback s c w"

fun run_ops :: "MySQL \<Rightarrow> op list \<Rightarrow> ctx \<Rightarrow> world \<Rightarrow> ctx option \<times> world" where
  "run_ops s [] c w = (Some c, w)"
| "run_ops s (x # xs) c w =
     (case apply_op s x c w of
        ((Some c', None), w') \<Rightarrow> run_ops s xs c' w'
      | (r, w') \<Rightarrow> (None, w'))"

text \<open>The calls made from a given point on, and the savepoint names among them.\<close>

definition calls_since :: "world \<Rightarrow> world \<Rightarrow> db_call list" where
  "calls_since w w' = drop (length (calls w)) (calls w')"

fun savepoint_id :: "db_call \<Rightarrow> string option" where
  "savepoint_id (TxExec x q) =
     (if take 10 q = ''SAVEPOINT '' then Some (drop 10 q) else None)"
| "savepoint_id k = None"

definition savepoints_issued :: "db_call list \<Rightarrow> string list" where
  "savepoints_issued ks = List.map_filter savepoint_id ks"

subsection \<open>Concrete drivers and a concrete start\<close>

text \<open>A driver on which every call succeeds.\<close>

definition accept_all :: driver where
  "accept_all h k = None"

text \<open>A driver that refuses every \<^verbatim>\<open>Exec\<close> and accepts the rest.\<close>

definition refuse_exec :: driver where
  "refuse_exec h k = (case k of TxExec x q \<Rightarrow> Some (DriverError ''exec failed'') | _ \<Rightarrow> None)"

text \<open>
  A driver that behaves as \<^verbatim>\<open>database/sql\<close> does once \<^verbatim>\<open>Commit\<close> or \<^verbatim>\<open>Rollback\<close> has been
  called on a \<^verbatim>\<open>Tx\<close>: every later call on that \<^verbatim>\<open>Tx\<close> returns \<^verbatim>\<open>sql.ErrTxDone\<close>.
\<close>

definition ErrTxDone :: error where
  "ErrTxDone = DriverError ''sql: transaction has already been committed or rolled back''"

definition tx_done :: "db_call list \<Rightarrow> tx_ptr \<Rightarrow> bool" where
  "tx_done h x = (TxCommit x \<in> set h \<or> TxRollback x \<in> set h)"

definition once_only :: driver where
  "once_only h k =
     (case k of
        DbBegin \<Rightarrow> None
      | TxExec x q \<Rightarrow> if tx_done h x then Some ErrTxDone else None
      | TxCommit x \<Rightarrow> if tx_done h x then Some ErrTxDone else None
      | TxRollback x \<Rightarrow> if tx_done h x then Some ErrTxDone else None)"

text \<open>A driver that accepts \<^verbatim>\<open>Begin\<close> and refuses every call on the transaction.\<close>

definition only_begin :: driver where
  "only_begin h k = (case k of DbBegin \<Rightarrow> None | _ \<Rightarrow> Some (DriverError ''refused''))"

definition coordinator :: "driver \<Rightarrow> MySQL" where
  "coordinator d = \<lparr>self = 4096, db = d\<rparr>"

definition world0 :: world where
  "world0 = \<lparr>heap = (\<lambda>p. \<lparr>tx = 0, savePoint = 0\<rparr>), next_trans = 0, next_tx = 0,
             calls = [], debugSQL = False, stderr = []\<rparr>"

text \<open>A caller's function that touches nothing and fails.\<close>

definition failing_fn :: "ctx \<Rightarrow> world \<Rightarrow> error option \<times> world" where
  "failing_fn c w = (Some (QError ''fn failed''), w)"

text \<open>A caller's function that touches nothing and succeeds.\<close>

definition passing_fn :: "ctx \<Rightarrow> world \<Rightarrow> error option \<times> world" where
  "passing_fn c w = (None, w)"

text \<open>
  A caller's function that opens a nested scope, leaves it open and fails.
\<close>

definition leaky_fn :: "MySQL \<Rightarrow> ctx \<Rightarrow> world \<Rightarrow> error option \<times> world" where
  "leaky_fn s c w = (Some (QError ''fn failed''), snd (StartTransaction s c w))"

text \<open>
  A caller's function that is itself a \<^verbatim>\<open>DoInTransaction\<close> on the context it was given:
  \<^verbatim>\<open>func(ctx) error { return s.DoInTransaction(ctx, inner) }\<close>. \<^verbatim>\<open>DoInTransaction\<close>
  returns whenever its function does, so the second branch is never taken.
\<close>

definition nested_fn :: "MySQL \<Rightarrow> ctx \<Rightarrow> world \<Rightarrow> error option \<times> world" where
  "nested_fn s c w =
     (case DoInTransaction s c passing_fn w of
        (Returns e, w') \<Rightarrow> (e, w')
      | (Panics, w') \<Rightarrow> (Some (QError ''panic''), w'))"

section \<open>Properties\<close>

subsection \<open>What each operation does, branch by branch\<close>

lemma ctx_Value_WithValue [simp]: "ctx_Value (WithValue c k v) k = v"
  by (simp add: ctx_Value_def WithValue_def)

lemma ctx_Value_Nil [simp]: "ctx_Value [] k = NilVal"
  by (simp add: ctx_Value_def)

lemma ctx_Value_Cons [simp]: "ctx_Value ((k, v) # c) k = v"
  by (simp add: ctx_Value_def)

lemma db_coordinator [simp]: "db (coordinator d) = d"
  by (simp add: coordinator_def)

lemma accept_all_simp [simp]: "accept_all h k = None"
  by (simp add: accept_all_def)

lemma refuse_exec_simps [simp]:
  "refuse_exec h (TxExec x q) = Some (DriverError ''exec failed'')"
  "refuse_exec h DbBegin = None"
  "refuse_exec h (TxCommit x) = None"
  "refuse_exec h (TxRollback x) = None"
  by (simp_all add: refuse_exec_def)

lemma only_begin_simps [simp]:
  "only_begin h DbBegin = None"
  "only_begin h (TxExec x q) = Some (DriverError ''refused'')"
  "only_begin h (TxCommit x) = Some (DriverError ''refused'')"
  "only_begin h (TxRollback x) = Some (DriverError ''refused'')"
  by (simp_all add: only_begin_def)

lemma world0_proj [simp]:
  "heap world0 p = \<lparr>tx = 0, savePoint = 0\<rparr>"
  "next_trans world0 = 0"
  "next_tx world0 = 0"
  "calls world0 = []"
  by (simp_all add: world0_def)

lemma debug_println_proj [simp]:
  "heap (debug_println m w) = heap w"
  "next_trans (debug_println m w) = next_trans w"
  "next_tx (debug_println m w) = next_tx w"
  "calls (debug_println m w) = calls w"
  "debugSQL (debug_println m w) = debugSQL w"
  by (simp_all add: debug_println_def)

lemma set_savePoint_proj [simp]:
  "heap (set_savePoint p v w) = (heap w)(p := (heap w p)\<lparr>savePoint := v\<rparr>)"
  "next_trans (set_savePoint p v w) = next_trans w"
  "next_tx (set_savePoint p v w) = next_tx w"
  "calls (set_savePoint p v w) = calls w"
  "debugSQL (set_savePoint p v w) = debugSQL w"
  "stderr (set_savePoint p v w) = stderr w"
  by (simp_all add: set_savePoint_def)

lemma db_do_proj [simp]:
  "fst (db_do s k w) = db s (calls w) k"
  "heap (snd (db_do s k w)) = heap w"
  "next_trans (snd (db_do s k w)) = next_trans w"
  "next_tx (snd (db_do s k w)) = next_tx w"
  "calls (snd (db_do s k w)) = calls w @ [k]"
  "debugSQL (snd (db_do s k w)) = debugSQL w"
  "stderr (snd (db_do s k w)) = stderr w"
  by (simp_all add: db_do_def)

lemma new_transaction_proj [simp]:
  "fst (new_transaction x w) = next_trans w"
  "heap (snd (new_transaction x w)) = (heap w)(next_trans w := \<lparr>tx = x, savePoint = 0\<rparr>)"
  "next_trans (snd (new_transaction x w)) = Suc (next_trans w)"
  "next_tx (snd (new_transaction x w)) = next_tx w"
  "calls (snd (new_transaction x w)) = calls w"
  "debugSQL (snd (new_transaction x w)) = debugSQL w"
  "stderr (snd (new_transaction x w)) = stderr w"
  by (simp_all add: new_transaction_def)

lemma Commit_unbound:
  "ctx_Value c (transactionKey s) = NilVal \<Longrightarrow>
     Commit s c w = ((None, Some (QError ''No started transaction'')), w)"
  by (simp add: Commit_def)

lemma Rollback_unbound:
  "ctx_Value c (transactionKey s) = NilVal \<Longrightarrow>
     Rollback s c w = ((None, Some (QError ''No started transaction'')), w)"
  by (simp add: Rollback_def)

lemma StartTransaction_root:
  "ctx_Value c (transactionKey s) = NilVal \<Longrightarrow>
   StartTransaction s c w =
     (let w1 = snd (db_do s DbBegin (debug_println ''BEGIN'' w))
      in case db s (calls w) DbBegin of
           Some err \<Rightarrow> ((None, Some err), w1)
         | None \<Rightarrow>
             ((Some (WithValue c (transactionKey s) (Trans (next_trans w))), None),
              snd (new_transaction (next_tx w) (w1\<lparr>next_tx := Suc (next_tx w)\<rparr>))))"
  by (simp add: StartTransaction_def Let_def db_do_def db_Begin_def new_transaction_def
      timelog_Start_def timelog_Finish_def split: option.splits prod.splits)

lemma StartTransaction_nested:
  "ctx_Value c (transactionKey s) = Trans p \<Longrightarrow>
   StartTransaction s c w =
     (let d = savePoint (heap w p) + 1;
          q = ''SAVEPOINT SP'' @ FormatUint (unat d);
          k = TxExec (tx (heap w p)) q;
          w3 = snd (db_do s k (debug_println q (set_savePoint p d w)))
      in case db s (calls w) k of
           Some err \<Rightarrow> ((None, Some err), w3)
         | None \<Rightarrow> ((Some c, None), w3))"
  by (simp add: StartTransaction_def Let_def db_do_def split: option.splits prod.splits)

lemma Commit_bound:
  "ctx_Value c (transactionKey s) = Trans p \<Longrightarrow>
   Commit s c w =
     (if 0 < savePoint (heap w p) then
        (let q = ''RELEASE SAVEPOINT SP'' @ FormatUint (unat (savePoint (heap w p)));
             k = TxExec (tx (heap w p)) q;
             w2 = snd (db_do s k (debug_println q w))
         in case db s (calls w) k of
              Some err \<Rightarrow> ((None, Some err), w2)
            | None \<Rightarrow> ((Some c, None), set_savePoint p (savePoint (heap w p) - 1) w2))
      else
        (let k = TxCommit (tx (heap w p));
             w2 = snd (db_do s k (debug_println ''COMMIT'' w))
         in case db s (calls w) k of
              Some err \<Rightarrow> ((None, Some err), w2)
            | None \<Rightarrow> ((Some (WithValue c (transactionKey s) NilVal), None), w2)))"
  by (simp add: Commit_def Let_def db_do_def timelog_Start_def timelog_Finish_def
      split: option.splits prod.splits)

lemma Rollback_bound:
  "ctx_Value c (transactionKey s) = Trans p \<Longrightarrow>
   Rollback s c w =
     (if 0 < savePoint (heap w p) then
        (let q = ''ROLLBACK TO SAVEPOINT SP'' @ FormatUint (unat (savePoint (heap w p)));
             k = TxExec (tx (heap w p)) q;
             w2 = snd (db_do s k (debug_println q w))
         in case db s (calls w) k of
              Some err \<Rightarrow> ((None, Some err), w2)
            | None \<Rightarrow> ((Some c, None), set_savePoint p (savePoint (heap w p) - 1) w2))
      else
        (let k = TxRollback (tx (heap w p));
             w2 = snd (db_do s k (debug_println ''ROLLBACK'' w))
         in case db s (calls w) k of
              Some err \<Rightarrow> ((None, Some err), w2)
            | None \<Rightarrow> ((Some (WithValue c (transactionKey s) NilVal), None), w2)))"
  by (simp add: Rollback_def Let_def db_do_def timelog_Start_def timelog_Finish_def
      split: option.splits prod.splits)

lemma FormatUint_digit: "n < 10 \<Longrightarrow> FormatUint n = [digit_char n]"
  by (simp add: FormatUint.simps)

lemma FormatUint_1 [simp]: "FormatUint (Suc 0) = ''1''"
  by (simp add: FormatUint_digit digit_char_def)

lemma StartTransaction_result:
  "(fst (fst (StartTransaction s c w)) = None) = (snd (fst (StartTransaction s c w)) \<noteq> None)"
  by (cases "ctx_Value c (transactionKey s)")
     (simp_all add: StartTransaction_root StartTransaction_nested Let_def split: option.splits)

lemma Commit_result:
  "(fst (fst (Commit s c w)) = None) = (snd (fst (Commit s c w)) \<noteq> None)"
  by (cases "ctx_Value c (transactionKey s)")
     (simp_all add: Commit_unbound Commit_bound Let_def split: option.splits)

lemma Rollback_result:
  "(fst (fst (Rollback s c w)) = None) = (snd (fst (Rollback s c w)) \<noteq> None)"
  by (cases "ctx_Value c (transactionKey s)")
     (simp_all add: Rollback_unbound Rollback_bound Let_def split: option.splits)

lemma UseTransaction_result:
  "(fst (fst (UseTransaction s c x w)) = None) = (snd (fst (UseTransaction s c x w)) \<noteq> None)"
  by (cases "ctx_Value c (transactionKey s)"; cases x)
     (simp_all add: UseTransaction_def split: prod.splits)

text \<open>No operation changes the real transaction that a context gives access to.\<close>

lemma GetTransaction_StartTransaction:
  "GetTransaction s c (snd (StartTransaction s c w)) = GetTransaction s c w"
  by (cases "ctx_Value c (transactionKey s)")
     (simp_all add: GetTransaction_def StartTransaction_nested Let_def split: option.splits)

lemma GetTransaction_Commit:
  "GetTransaction s c (snd (Commit s c w)) = GetTransaction s c w"
  by (cases "ctx_Value c (transactionKey s)")
     (simp_all add: GetTransaction_def Commit_bound Let_def split: option.splits)

lemma GetTransaction_Rollback:
  "GetTransaction s c (snd (Rollback s c w)) = GetTransaction s c w"
  by (cases "ctx_Value c (transactionKey s)")
     (simp_all add: GetTransaction_def Rollback_bound Let_def split: option.splits)

lemma GetTransaction_UseTransaction:
  "GetTransaction s c (snd (UseTransaction s c x w)) = GetTransaction s c w"
  by (cases "ctx_Value c (transactionKey s)"; cases x)
     (simp_all add: GetTransaction_def UseTransaction_def Let_def split: option.splits prod.splits)

subsection \<open>Commit and Rollback without a transaction\<close>

text \<open>
  C7. On a context in which no Handle is bound, \<^verbatim>\<open>Commit\<close> and \<^verbatim>\<open>Rollback\<close> both return
  a nil context and the error "No started transaction", and leave the world as it was:
  no call reaches the driver.
\<close>

theorem commit_rollback_unbound:
  "ctx_Value c (transactionKey s) = NilVal \<Longrightarrow>
     Commit s c w = ((None, Some (QError ''No started transaction'')), w) \<and>
     Rollback s c w = ((None, Some (QError ''No started transaction'')), w)"
  by (simp add: Commit_unbound Rollback_unbound)

theorem commit_rollback_unbound_witness:
  "ctx_Value [] (transactionKey (coordinator accept_all)) = NilVal \<and>
   fst (Commit (coordinator accept_all) [] world0)
     = (None, Some (QError ''No started transaction'')) \<and>
   calls (snd (Commit (coordinator accept_all) [] world0)) = [] \<and>
   fst (Rollback (coordinator accept_all) [] world0)
     = (None, Some (QError ''No started transaction'')) \<and>
   calls (snd (Rollback (coordinator accept_all) [] world0)) = []"
  using commit_rollback_unbound [of "[]" "coordinator accept_all" world0]
  by (simp add: world0_def)

subsection \<open>Adopting a transaction opened elsewhere\<close>

text \<open>
  C8. \<^verbatim>\<open>UseTransaction\<close> with a nil transaction fails with "No transaction provided". With
  a transaction and a Handle already bound it fails with "Transaction already started".
  With a transaction and no Handle bound it succeeds: the context it returns is the old
  one extended by a binding to a newly allocated Handle that holds the given transaction
  at depth 0, no other Handle changes, no call reaches the driver, and a second
  \<^verbatim>\<open>UseTransaction\<close> on the returned context fails whatever it is given.
\<close>

theorem UseTransaction_contract:
  "UseTransaction s c None w = ((None, Some (QError ''No transaction provided'')), w) \<and>
   (ctx_Value c (transactionKey s) = Trans p \<longrightarrow>
      UseTransaction s c (Some x) w
        = ((None, Some (QError ''Transaction already started'')), w)) \<and>
   (ctx_Value c (transactionKey s) = NilVal \<longrightarrow>
      (\<exists>c' w'. UseTransaction s c (Some x) w = ((Some c', None), w') \<and>
         c' = WithValue c (transactionKey s) (Trans (next_trans w)) \<and>
         ctx_Value c' (transactionKey s) = Trans (next_trans w) \<and>
         heap w' (next_trans w) = \<lparr>tx = x, savePoint = 0\<rparr> \<and>
         (\<forall>q. q \<noteq> next_trans w \<longrightarrow> heap w' q = heap w q) \<and>
         next_trans w' = Suc (next_trans w) \<and>
         calls w' = calls w \<and>
         UseTransaction s c' None w'
           = ((None, Some (QError ''No transaction provided'')), w') \<and>
         (\<forall>y. UseTransaction s c' (Some y) w'
                 = ((None, Some (QError ''Transaction already started'')), w'))))"
  by (simp add: UseTransaction_def new_transaction_def split: prod.splits)

theorem UseTransaction_contract_witness:
  "ctx_Value [(transactionKey (coordinator accept_all), Trans 0)]
     (transactionKey (coordinator accept_all)) = Trans 0 \<and>
   fst (UseTransaction (coordinator accept_all)
          [(transactionKey (coordinator accept_all), Trans 0)] (Some 7) world0)
     = (None, Some (QError ''Transaction already started'')) \<and>
   ctx_Value [] (transactionKey (coordinator accept_all)) = NilVal \<and>
   fst (UseTransaction (coordinator accept_all) [] (Some 7) world0)
     = (Some [(transactionKey (coordinator accept_all), Trans 0)], None) \<and>
   heap (snd (UseTransaction (coordinator accept_all) [] (Some 7) world0)) 0
     = \<lparr>tx = 7, savePoint = 0\<rparr> \<and>
   fst (UseTransaction (coordinator accept_all)
          [(transactionKey (coordinator accept_all), Trans 0)] (Some 8)
          (snd (UseTransaction (coordinator accept_all) [] (Some 7) world0)))
     = (None, Some (QError ''Transaction already started''))"
  using UseTransaction_contract [of "coordinator accept_all"
      "[(transactionKey (coordinator accept_all), Trans 0)]" world0 0 7]
    UseTransaction_contract [of "coordinator accept_all" "[]" world0 0 7]
  by (auto simp: world0_def WithValue_def)

subsection \<open>An error never comes with a context\<close>

text \<open>
  C9. Whenever \<^verbatim>\<open>StartTransaction\<close>, \<^verbatim>\<open>UseTransaction\<close>, \<^verbatim>\<open>Commit\<close> or \<^verbatim>\<open>Rollback\<close>
  returns an error, the context it returns is nil. The context that was passed in is a
  value the call cannot change, and after the failed call it still gives access to the
  same real transaction as before (or to none, if it had none).
\<close>

theorem error_returns_nil_context:
  "(fst (StartTransaction s c w) = (r, Some e) \<longrightarrow>
      r = None \<and> GetTransaction s c (snd (StartTransaction s c w)) = GetTransaction s c w) \<and>
   (fst (UseTransaction s c x w) = (r, Some e) \<longrightarrow>
      r = None \<and> GetTransaction s c (snd (UseTransaction s c x w)) = GetTransaction s c w) \<and>
   (fst (Commit s c w) = (r, Some e) \<longrightarrow>
      r = None \<and> GetTransaction s c (snd (Commit s c w)) = GetTransaction s c w) \<and>
   (fst (Rollback s c w) = (r, Some e) \<longrightarrow>
      r = None \<and> GetTransaction s c (snd (Rollback s c w)) = GetTransaction s c w)"
  using StartTransaction_result [of s c w] UseTransaction_result [of s c x w]
    Commit_result [of s c w] Rollback_result [of s c w]
  by (auto simp add: GetTransaction_StartTransaction GetTransaction_Commit
      GetTransaction_Rollback GetTransaction_UseTransaction)

theorem error_returns_nil_context_witness:
  "fst (StartTransaction (coordinator refuse_exec)
          [(transactionKey (coordinator refuse_exec), Trans 0)] world0)
     = (None, Some (DriverError ''exec failed'')) \<and>
   GetTransaction (coordinator refuse_exec)
     [(transactionKey (coordinator refuse_exec), Trans 0)]
     (snd (StartTransaction (coordinator refuse_exec)
          [(transactionKey (coordinator refuse_exec), Trans 0)] world0)) = Some 0 \<and>
   fst (UseTransaction (coordinator refuse_exec) [] None world0)
     = (None, Some (QError ''No transaction provided'')) \<and>
   fst (Commit (coordinator refuse_exec) [] world0)
     = (None, Some (QError ''No started transaction'')) \<and>
   fst (Rollback (coordinator refuse_exec) [] world0)
     = (None, Some (QError ''No started transaction''))"
  using error_returns_nil_context [of "coordinator refuse_exec"
      "[(transactionKey (coordinator refuse_exec), Trans 0)]" world0 None
      "DriverError ''exec failed''" None]
    error_returns_nil_context [of "coordinator refuse_exec" "[]" world0 None
      "QError ''No started transaction''" None]
  by (simp add: StartTransaction_nested Let_def Commit_unbound Rollback_unbound
      UseTransaction_def GetTransaction_def)

subsection \<open>The depth counter\<close>

lemma run_nested_starts:
  "ctx_Value c (transactionKey s) = Trans p \<Longrightarrow>
   run_ops s (replicate n OpStart) c w = (Some c', w') \<Longrightarrow>
   c' = c \<and> savePoint (heap w' p) = savePoint (heap w p) + of_nat n \<and> tx (heap w' p) = tx (heap w p)"
proof (induction n arbitrary: w)
  case 0
  then show ?case by simp
next
  case (Suc n)
  let ?r = "StartTransaction s c w"
  from Suc.prems(2) have ok: "fst ?r = (Some c, None)"
    using Suc.prems(1)
    by (auto simp: StartTransaction_nested Let_def split: option.splits prod.splits)
  with Suc.prems(2) have rest: "run_ops s (replicate n OpStart) c (snd ?r) = (Some c', w')"
    by (auto split: prod.splits option.splits)
  from Suc.IH [OF Suc.prems(1) rest]
  have "c' = c" and "savePoint (heap w' p) = savePoint (heap (snd ?r) p) + of_nat n"
    and "tx (heap w' p) = tx (heap (snd ?r) p)" by simp_all
  moreover have "savePoint (heap (snd ?r) p) = savePoint (heap w p) + 1"
    "tx (heap (snd ?r) p) = tx (heap w p)"
    using Suc.prems(1) by (simp_all add: StartTransaction_nested Let_def split: option.splits)
  ultimately show ?case by simp
qed

lemma root_start_ok:
  assumes "ctx_Value c (transactionKey s) = NilVal"
    and "StartTransaction s c w = ((Some c1, None), w1)"
  shows "c1 = WithValue c (transactionKey s) (Trans (next_trans w))"
    and "heap w1 (next_trans w) = \<lparr>tx = next_tx w, savePoint = 0\<rparr>"
    and "calls w1 = calls w @ [DbBegin]"
  using assms by (auto simp: StartTransaction_root Let_def split: option.splits)

lemma unat_pred: "0 < (x :: 64 word) \<Longrightarrow> unat (x - 1) + 1 = unat x"
  by (metis Suc_eq_plus1 Suc_pred' unat_minus_one unsigned_eq_0_iff word_greater_zero_iff zero_less_iff_neq_zero)

lemma unat_of_nat_64: "N < 2 ^ 64 \<Longrightarrow> unat (word_of_nat N :: 64 word) = N"
  by (simp add: unat_of_nat)

lemma nested_Commit_ok:
  assumes "ctx_Value c (transactionKey s) = Trans p" and "0 < savePoint (heap w p)"
    and "snd (fst (Commit s c w)) = None"
  shows "fst (fst (Commit s c w)) = Some c"
    and "savePoint (heap (snd (Commit s c w)) p) = savePoint (heap w p) - 1"
  using assms by (auto simp: Commit_bound Let_def split: option.splits)

lemma nested_Rollback_ok:
  assumes "ctx_Value c (transactionKey s) = Trans p" and "0 < savePoint (heap w p)"
    and "snd (fst (Rollback s c w)) = None"
  shows "fst (fst (Rollback s c w)) = Some c"
    and "savePoint (heap (snd (Rollback s c w)) p) = savePoint (heap w p) - 1"
  using assms by (auto simp: Rollback_bound Let_def split: option.splits)

lemma final_Commit_ok:
  assumes "ctx_Value c (transactionKey s) = Trans p" and "savePoint (heap w p) = 0"
    and "snd (fst (Commit s c w)) = None"
  shows "fst (fst (Commit s c w)) = Some (WithValue c (transactionKey s) NilVal)"
    and "calls (snd (Commit s c w)) = calls w @ [TxCommit (tx (heap w p))]"
  using assms by (auto simp: Commit_bound Let_def split: option.splits)

lemma final_Rollback_ok:
  assumes "ctx_Value c (transactionKey s) = Trans p" and "savePoint (heap w p) = 0"
    and "snd (fst (Rollback s c w)) = None"
  shows "fst (fst (Rollback s c w)) = Some (WithValue c (transactionKey s) NilVal)"
    and "calls (snd (Rollback s c w)) = calls w @ [TxRollback (tx (heap w p))]"
  using assms by (auto simp: Rollback_bound Let_def split: option.splits)

text \<open>
  C1. From a context with no Handle bound, one \<^verbatim>\<open>StartTransaction\<close> followed by \<open>N\<close>
  nested ones, all succeeding, leaves the Handle's \<^verbatim>\<open>savePoint\<close> at \<open>N\<close> (as a
  \<^verbatim>\<open>uint64\<close>; read as a number it is \<open>N\<close> for every \<open>N\<close> below \<open>2 ^ 64\<close>). A successful
  \<^verbatim>\<open>Commit\<close> or \<^verbatim>\<open>Rollback\<close> at depth above 0 returns the same context and lowers the
  depth by exactly 1. A successful \<^verbatim>\<open>Commit\<close> or \<^verbatim>\<open>Rollback\<close> at depth 0 returns a
  context in which the Handle is no longer bound.
\<close>

theorem depth_counts_nesting:
  "(ctx_Value ca (transactionKey s) = NilVal \<and>
    run_ops s (OpStart # replicate N OpStart) ca wa = (Some cN, wN) \<longrightarrow>
      (\<exists>p. ctx_Value cN (transactionKey s) = Trans p \<and>
           savePoint (heap wN p) = word_of_nat N \<and>
           (N < 2 ^ 64 \<longrightarrow> unat (savePoint (heap wN p)) = N))) \<and>
   (ctx_Value c (transactionKey s) = Trans p \<and> 0 < savePoint (heap w p) \<longrightarrow>
      (snd (fst (Commit s c w)) = None \<longrightarrow>
         fst (fst (Commit s c w)) = Some c \<and>
         savePoint (heap (snd (Commit s c w)) p) = savePoint (heap w p) - 1 \<and>
         unat (savePoint (heap (snd (Commit s c w)) p)) + 1 = unat (savePoint (heap w p))) \<and>
      (snd (fst (Rollback s c w)) = None \<longrightarrow>
         fst (fst (Rollback s c w)) = Some c \<and>
         savePoint (heap (snd (Rollback s c w)) p) = savePoint (heap w p) - 1 \<and>
         unat (savePoint (heap (snd (Rollback s c w)) p)) + 1 = unat (savePoint (heap w p)))) \<and>
   (ctx_Value c (transactionKey s) = Trans p \<and> savePoint (heap w p) = 0 \<longrightarrow>
      (snd (fst (Commit s c w)) = None \<longrightarrow>
         (\<exists>c'. fst (fst (Commit s c w)) = Some c' \<and> ctx_Value c' (transactionKey s) = NilVal)) \<and>
      (snd (fst (Rollback s c w)) = None \<longrightarrow>
         (\<exists>c'. fst (fst (Rollback s c w)) = Some c' \<and> ctx_Value c' (transactionKey s) = NilVal)))"
proof (intro conjI impI)
  assume a: "ctx_Value ca (transactionKey s) = NilVal \<and>
    run_ops s (OpStart # replicate N OpStart) ca wa = (Some cN, wN)"
  obtain c1 w1 where st: "StartTransaction s ca wa = ((Some c1, None), w1)"
    and rest: "run_ops s (replicate N OpStart) c1 w1 = (Some cN, wN)"
    using a by (auto split: prod.splits option.splits)
  let ?p = "next_trans wa"
  have c1: "ctx_Value c1 (transactionKey s) = Trans ?p" and h1: "savePoint (heap w1 ?p) = 0"
    using root_start_ok [OF _ st] a by simp_all
  from run_nested_starts [OF c1 rest] h1
  have "ctx_Value cN (transactionKey s) = Trans ?p" and d: "savePoint (heap wN ?p) = word_of_nat N"
    using c1 by simp_all
  then show "\<exists>p. ctx_Value cN (transactionKey s) = Trans p \<and>
           savePoint (heap wN p) = word_of_nat N \<and>
           (N < 2 ^ 64 \<longrightarrow> unat (savePoint (heap wN p)) = N)"
    using unat_of_nat_64 [of N] by auto
next
  assume a: "ctx_Value c (transactionKey s) = Trans p \<and> 0 < savePoint (heap w p)"
    and ok: "snd (fst (Commit s c w)) = None"
  show "fst (fst (Commit s c w)) = Some c"
    using nested_Commit_ok(1) a ok by blast
  show "savePoint (heap (snd (Commit s c w)) p) = savePoint (heap w p) - 1"
    using nested_Commit_ok(2) a ok by blast
  then show "unat (savePoint (heap (snd (Commit s c w)) p)) + 1 = unat (savePoint (heap w p))"
    using unat_pred a by simp
next
  assume a: "ctx_Value c (transactionKey s) = Trans p \<and> 0 < savePoint (heap w p)"
    and ok: "snd (fst (Rollback s c w)) = None"
  show "fst (fst (Rollback s c w)) = Some c"
    using nested_Rollback_ok(1) a ok by blast
  show "savePoint (heap (snd (Rollback s c w)) p) = savePoint (heap w p) - 1"
    using nested_Rollback_ok(2) a ok by blast
  then show "unat (savePoint (heap (snd (Rollback s c w)) p)) + 1 = unat (savePoint (heap w p))"
    using unat_pred a by simp
next
  assume a: "ctx_Value c (transactionKey s) = Trans p \<and> savePoint (heap w p) = 0"
    and ok: "snd (fst (Commit s c w)) = None"
  show "\<exists>c'. fst (fst (Commit s c w)) = Some c' \<and> ctx_Value c' (transactionKey s) = NilVal"
    using final_Commit_ok(1) [of c s p w] a ok by simp
next
  assume a: "ctx_Value c (transactionKey s) = Trans p \<and> savePoint (heap w p) = 0"
    and ok: "snd (fst (Rollback s c w)) = None"
  show "\<exists>c'. fst (fst (Rollback s c w)) = Some c' \<and> ctx_Value c' (transactionKey s) = NilVal"
    using final_Rollback_ok(1) [of c s p w] a ok by simp
qed

lemma FormatUint_2 [simp]: "FormatUint 2 = ''2''"
  by (simp add: FormatUint_digit digit_char_def)


theorem depth_counts_nesting_witness:
  "fst (run_ops (coordinator accept_all) (OpStart # replicate 2 OpStart) [] world0)
     = Some [(transactionKey (coordinator accept_all), Trans 0)] \<and>
   unat (savePoint (heap (snd (run_ops (coordinator accept_all)
       (OpStart # replicate 2 OpStart) [] world0)) 0)) = 2 \<and>
   unat (savePoint (heap (snd (Commit (coordinator accept_all)
       [(transactionKey (coordinator accept_all), Trans 0)]
       (snd (run_ops (coordinator accept_all) (OpStart # replicate 2 OpStart) [] world0)))) 0)) + 1 = 2 \<and>
   unat (savePoint (heap (snd (Rollback (coordinator accept_all)
       [(transactionKey (coordinator accept_all), Trans 0)]
       (snd (run_ops (coordinator accept_all) (OpStart # replicate 2 OpStart) [] world0)))) 0)) + 1 = 2 \<and>
   ctx_Value (the (fst (fst (Commit (coordinator accept_all)
       [(transactionKey (coordinator accept_all), Trans 0)]
       (snd (StartTransaction (coordinator accept_all) [] world0))))))
     (transactionKey (coordinator accept_all)) = NilVal \<and>
   ctx_Value (the (fst (fst (Rollback (coordinator accept_all)
       [(transactionKey (coordinator accept_all), Trans 0)]
       (snd (StartTransaction (coordinator accept_all) [] world0))))))
     (transactionKey (coordinator accept_all)) = NilVal"
proof -
  let ?s = "coordinator accept_all"
  let ?c = "[(transactionKey ?s, Trans 0)]"
  let ?w = "snd (run_ops ?s (OpStart # replicate 2 OpStart) [] world0)"
  let ?v = "snd (StartTransaction ?s [] world0)"
  have run1: "fst (run_ops ?s (OpStart # replicate 2 OpStart) [] world0) = Some ?c"
    by (simp add: eval_nat_numeral StartTransaction_root StartTransaction_nested Let_def
        WithValue_def)
  then have run: "run_ops ?s (OpStart # replicate 2 OpStart) [] world0 = (Some ?c, ?w)"
    by (simp add: prod_eq_iff del: run_ops.simps)
  have bound: "ctx_Value ?c (transactionKey ?s) = Trans 0"
    by simp
  have deep: "savePoint (heap ?w 0) = 2"
    by (simp add: eval_nat_numeral StartTransaction_root StartTransaction_nested Let_def
        WithValue_def)
  have flat: "savePoint (heap ?v 0) = 0"
    by (simp add: StartTransaction_root Let_def)
  have ok:
    "snd (fst (Commit ?s ?c ?w)) = None" "snd (fst (Rollback ?s ?c ?w)) = None"
    "snd (fst (Commit ?s ?c ?v)) = None" "snd (fst (Rollback ?s ?c ?v)) = None"
    by (simp_all add: Commit_bound Rollback_bound Let_def)
  show ?thesis
    using depth_counts_nesting [of "[]" ?s 2 world0 ?c ?w ?c 0 ?w]
      depth_counts_nesting [of "[]" ?s 2 world0 ?c ?w ?c 0 ?v]
      run run1 bound deep flat ok
    by (auto simp del: run_ops.simps)
qed

subsection \<open>Scenario A: a nested scope rolled back, the outer scope committed\<close>

text \<open>
  C2. From a context with no Handle bound and with a driver on which every call
  succeeds, the sequence \<^verbatim>\<open>StartTransaction\<close>, \<^verbatim>\<open>StartTransaction\<close>, \<^verbatim>\<open>Rollback\<close>,
  \<^verbatim>\<open>Commit\<close> runs to its end and adds to the calls on the driver exactly
  \<^verbatim>\<open>BEGIN\<close>, \<^verbatim>\<open>SAVEPOINT SP1\<close>, \<^verbatim>\<open>ROLLBACK TO SAVEPOINT SP1\<close>, \<^verbatim>\<open>COMMIT\<close>, in this order, all
  on the transaction that \<^verbatim>\<open>Begin\<close> returned; no \<^verbatim>\<open>RELEASE SAVEPOINT\<close> is among them.
\<close>

theorem scenario_A_statements:
  "(\<forall>h k. db s h k = None) \<Longrightarrow> ctx_Value c (transactionKey s) = NilVal \<Longrightarrow>
   fst (run_ops s [OpStart, OpStart, OpRollback, OpCommit] c w) \<noteq> None \<and>
   calls (snd (run_ops s [OpStart, OpStart, OpRollback, OpCommit] c w))
     = calls w @ [DbBegin, TxExec (next_tx w) ''SAVEPOINT SP1'',
                  TxExec (next_tx w) ''ROLLBACK TO SAVEPOINT SP1'', TxCommit (next_tx w)] \<and>
   map sql_of (calls_since w (snd (run_ops s [OpStart, OpStart, OpRollback, OpCommit] c w)))
     = [''BEGIN'', ''SAVEPOINT SP1'', ''ROLLBACK TO SAVEPOINT SP1'', ''COMMIT'']"
  by (simp add: StartTransaction_root StartTransaction_nested Rollback_bound Commit_bound
      Let_def calls_since_def)

theorem scenario_A_statements_witness:
  "fst (run_ops (coordinator accept_all) [OpStart, OpStart, OpRollback, OpCommit] [] world0)
     \<noteq> None \<and>
   map sql_of (calls (snd (run_ops (coordinator accept_all)
       [OpStart, OpStart, OpRollback, OpCommit] [] world0)))
     = [''BEGIN'', ''SAVEPOINT SP1'', ''ROLLBACK TO SAVEPOINT SP1'', ''COMMIT'']"
  using scenario_A_statements [of "coordinator accept_all" "[]" world0]
  by (simp del: run_ops.simps)

subsection \<open>A savepoint statement that fails\<close>

text \<open>
  C3. The claim is that a nested \<^verbatim>\<open>StartTransaction\<close> whose \<^verbatim>\<open>SAVEPOINT\<close> statement fails
  leaves the depth as it was. The code increments \<^verbatim>\<open>savePoint\<close> before \<^verbatim>\<open>Exec\<close> and returns
  on the error without taking the increment back: with a driver that refuses \<^verbatim>\<open>Exec\<close>,
  the depth is 0 before the failed call and 1 after it, and the \<^verbatim>\<open>Commit\<close> of the outer
  scope then releases a savepoint \<^verbatim>\<open>SP1\<close> that was never created instead of committing.
\<close>

theorem failed_savepoint_keeps_increment:
  "fst (run_ops (coordinator refuse_exec) [OpStart] [] world0)
     = Some [(transactionKey (coordinator refuse_exec), Trans 0)] \<and>
   savePoint (heap (snd (run_ops (coordinator refuse_exec) [OpStart] [] world0)) 0) = 0 \<and>
   fst (StartTransaction (coordinator refuse_exec)
          [(transactionKey (coordinator refuse_exec), Trans 0)]
          (snd (run_ops (coordinator refuse_exec) [OpStart] [] world0)))
     = (None, Some (DriverError ''exec failed'')) \<and>
   savePoint (heap (snd (StartTransaction (coordinator refuse_exec)
          [(transactionKey (coordinator refuse_exec), Trans 0)]
          (snd (run_ops (coordinator refuse_exec) [OpStart] [] world0)))) 0) = 1 \<and>
   calls (snd (Commit (coordinator refuse_exec)
          [(transactionKey (coordinator refuse_exec), Trans 0)]
          (snd (StartTransaction (coordinator refuse_exec)
          [(transactionKey (coordinator refuse_exec), Trans 0)]
          (snd (run_ops (coordinator refuse_exec) [OpStart] [] world0))))))
     = [DbBegin, TxExec 0 ''SAVEPOINT SP1'', TxExec 0 ''RELEASE SAVEPOINT SP1'']"
  by (simp add: StartTransaction_root StartTransaction_nested Commit_bound Let_def WithValue_def)

subsection \<open>Savepoint names\<close>

text \<open>
  C4, as stated, fails: a savepoint name is issued again once the savepoint that carried
  it has been released or rolled back. After \<^verbatim>\<open>StartTransaction\<close>, \<^verbatim>\<open>StartTransaction\<close>,
  \<^verbatim>\<open>Commit\<close> (or \<^verbatim>\<open>Rollback\<close>), \<^verbatim>\<open>StartTransaction\<close> the name \<^verbatim>\<open>SP1\<close> has been issued twice.
\<close>

theorem savepoint_reissued_counterexample:
  "fst (run_ops (coordinator accept_all) [OpStart, OpStart, OpCommit, OpStart] [] world0)
     \<noteq> None \<and>
   savepoints_issued (calls (snd (run_ops (coordinator accept_all)
       [OpStart, OpStart, OpCommit, OpStart] [] world0))) = [''SP1'', ''SP1''] \<and>
   \<not> distinct (savepoints_issued (calls (snd (run_ops (coordinator accept_all)
       [OpStart, OpStart, OpCommit, OpStart] [] world0)))) \<and>
   fst (run_ops (coordinator accept_all) [OpStart, OpStart, OpRollback, OpStart] [] world0)
     \<noteq> None \<and>
   savepoints_issued (calls (snd (run_ops (coordinator accept_all)
       [OpStart, OpStart, OpRollback, OpStart] [] world0))) = [''SP1'', ''SP1'']"
  by (simp add: StartTransaction_root StartTransaction_nested Commit_bound Rollback_bound
      Let_def WithValue_def savepoints_issued_def List.map_filter_simps)

lemma digit_char_inj: "a < 10 \<Longrightarrow> b < 10 \<Longrightarrow> digit_char a = digit_char b \<Longrightarrow> a = b"
proof -
  assume a: "a < 10" and b: "b < 10" and e: "digit_char a = digit_char b"
  have A: "a \<in> {0,1,2,3,4,5,6,7,8,9}" using a by auto
  have B: "b \<in> {0,1,2,3,4,5,6,7,8,9}" using b by auto
  show ?thesis using A B e by (auto simp: digit_char_def)
qed

lemma FormatUint_length: "(length (FormatUint n) = 1) = (n < 10)"
proof (cases "n < 10")
  case True
  then show ?thesis by (simp add: FormatUint_digit)
next
  case False
  have "length (FormatUint (n div 10)) \<noteq> 0"
    by (subst FormatUint.simps) simp
  with False show ?thesis
    by (subst FormatUint.simps) simp
qed

lemma FormatUint_inj: "FormatUint m = FormatUint n \<Longrightarrow> m = n"
proof (induction m arbitrary: n rule: FormatUint.induct)
  case (1 m)
  show ?case
  proof (cases "m < 10")
    case True
    with "1.prems" have n: "n < 10"
      using FormatUint_length [of m] FormatUint_length [of n] by simp
    with True "1.prems" show ?thesis
      by (simp add: FormatUint_digit digit_char_inj)
  next
    case False
    with "1.prems" have n: "\<not> n < 10"
      using FormatUint_length [of m] FormatUint_length [of n] by simp
    from "1.prems" False n
    have "FormatUint (m div 10) @ [digit_char (m mod 10)]
        = FormatUint (n div 10) @ [digit_char (n mod 10)]"
      by (simp add: FormatUint.simps [of m] FormatUint.simps [of n])
    then have q: "FormatUint (m div 10) = FormatUint (n div 10)"
      and r: "digit_char (m mod 10) = digit_char (n mod 10)" by simp_all
    from "1.IH" [OF False q] have "m div 10 = n div 10" .
    moreover from r have "m mod 10 = n mod 10"
      by (intro digit_char_inj) simp_all
    ultimately show ?thesis
      by (metis div_mult_mod_eq)
  qed
qed

lemma savepoint_id_SAVEPOINT [simp]:
  "savepoint_id (TxExec x (''SAVEPOINT SP'' @ r)) = Some (''SP'' @ r)"
  by simp

lemma calls_since_append [simp]: "calls w' = calls w @ ks \<Longrightarrow> calls_since w w' = ks"
  by (simp add: calls_since_def)

lemma nested_start_calls:
  "ctx_Value c (transactionKey s) = Trans p \<Longrightarrow>
   calls (snd (StartTransaction s c w))
     = calls w @ [TxExec (tx (heap w p))
                    (''SAVEPOINT SP'' @ FormatUint (unat (savePoint (heap w p) + 1)))]"
  by (simp add: StartTransaction_nested Let_def split: option.splits)

lemma run_nested_starts_calls:
  "ctx_Value c (transactionKey s) = Trans p \<Longrightarrow>
   run_ops s (replicate n OpStart) c w = (Some c', w') \<Longrightarrow>
   calls w' = calls w @
     map (\<lambda>i. TxExec (tx (heap w p))
                (''SAVEPOINT SP'' @ FormatUint (unat (savePoint (heap w p) + word_of_nat (Suc i)))))
       [0..<n]"
proof (induction n arbitrary: w)
  case 0
  then show ?case by simp
next
  case (Suc n)
  let ?r = "StartTransaction s c w"
  from Suc.prems have ok: "fst ?r = (Some c, None)"
    by (auto simp: StartTransaction_nested Let_def split: option.splits prod.splits)
  with Suc.prems(2) have rest: "run_ops s (replicate n OpStart) c (snd ?r) = (Some c', w')"
    by (auto split: prod.splits option.splits)
  have step: "savePoint (heap (snd ?r) p) = savePoint (heap w p) + 1"
    "tx (heap (snd ?r) p) = tx (heap w p)"
    using Suc.prems(1) by (simp_all add: StartTransaction_nested Let_def split: option.splits)
  have shift: "savePoint (heap w p) + 1 + word_of_nat (Suc i)
      = savePoint (heap w p) + word_of_nat (Suc (Suc i))" for i
    by simp
  show ?case
    unfolding Suc.IH [OF Suc.prems(1) rest] nested_start_calls [OF Suc.prems(1)] step shift
      map_upt_Suc
    by simp
qed

lemma unat_plus_of_nat:
  "unat (d :: 64 word) + k < 2 ^ 64 \<Longrightarrow> unat (d + word_of_nat k) = unat d + k"
  by (simp add: unat_word_ariths unat_of_nat)

lemma run_nested_starts_names:
  assumes "ctx_Value c (transactionKey s) = Trans p"
    and "run_ops s (replicate n OpStart) c w = (Some c', w')"
    and "unat (savePoint (heap w p)) + n < 2 ^ 64"
  shows "savepoints_issued (calls_since w w')
     = map (\<lambda>i. ''SP'' @ FormatUint (unat (savePoint (heap w p)) + Suc i)) [0..<n]"
proof -
  have "unat (savePoint (heap w p) + word_of_nat (Suc i)) = unat (savePoint (heap w p)) + Suc i"
    if "i < n" for i
    using that assms(3) by (intro unat_plus_of_nat) simp
  then show ?thesis
    unfolding calls_since_append [OF run_nested_starts_calls [OF assms(1,2)]]
    by (simp add: savepoints_issued_def List.map_filter_def comp_def)
qed

lemma distinct_names:
  "distinct (map (\<lambda>i. ''SP'' @ FormatUint (a + Suc i)) [0..<n])"
  by (auto simp: distinct_map inj_on_def dest: FormatUint_inj)

lemma nested_start_again:
  assumes b: "ctx_Value c (transactionKey s) = Trans p"
    and nz: "savePoint (heap w p) + 1 \<noteq> 0"
    and ok: "snd (fst (StartTransaction s c w)) = None"
  shows "snd (fst (Commit s c (snd (StartTransaction s c w)))) = None \<Longrightarrow>
      calls_since (snd (Commit s c (snd (StartTransaction s c w))))
        (snd (StartTransaction s c (snd (Commit s c (snd (StartTransaction s c w))))))
      = calls_since w (snd (StartTransaction s c w))"
    and "snd (fst (Rollback s c (snd (StartTransaction s c w)))) = None \<Longrightarrow>
      calls_since (snd (Rollback s c (snd (StartTransaction s c w))))
        (snd (StartTransaction s c (snd (Rollback s c (snd (StartTransaction s c w))))))
      = calls_since w (snd (StartTransaction s c w))"
proof -
  let ?w1 = "snd (StartTransaction s c w)"
  have h1: "savePoint (heap ?w1 p) = savePoint (heap w p) + 1" "tx (heap ?w1 p) = tx (heap w p)"
    using b by (simp_all add: StartTransaction_nested Let_def split: option.splits)
  have pos: "0 < savePoint (heap ?w1 p)"
    using nz h1 by (simp add: word_greater_zero_iff)
  {
    assume "snd (fst (Commit s c ?w1)) = None"
    then have "savePoint (heap (snd (Commit s c ?w1)) p) = savePoint (heap w p)"
      "tx (heap (snd (Commit s c ?w1)) p) = tx (heap w p)"
      using b pos h1 by (auto simp: Commit_bound Let_def split: option.splits)
    then show "calls_since (snd (Commit s c ?w1))
        (snd (StartTransaction s c (snd (Commit s c ?w1)))) = calls_since w ?w1"
      using nested_start_calls [OF b, of w] nested_start_calls [OF b, of "snd (Commit s c ?w1)"]
      by simp
  }
  {
    assume "snd (fst (Rollback s c ?w1)) = None"
    then have "savePoint (heap (snd (Rollback s c ?w1)) p) = savePoint (heap w p)"
      "tx (heap (snd (Rollback s c ?w1)) p) = tx (heap w p)"
      using b pos h1 by (auto simp: Rollback_bound Let_def split: option.splits)
    then show "calls_since (snd (Rollback s c ?w1))
        (snd (StartTransaction s c (snd (Rollback s c ?w1)))) = calls_since w ?w1"
      using nested_start_calls [OF b, of w] nested_start_calls [OF b, of "snd (Rollback s c ?w1)"]
      by simp
  }
qed

lemma nested_Commit_then_Start:
  assumes b: "ctx_Value c (transactionKey s) = Trans p"
    and pos: "0 < savePoint (heap w p)"
    and ok: "snd (fst (Commit s c w)) = None"
  shows "calls (snd (Commit s c w))
      = calls w @ [TxExec (tx (heap w p))
                     (''RELEASE SAVEPOINT SP'' @ FormatUint (unat (savePoint (heap w p))))]"
    and "calls (snd (StartTransaction s c (snd (Commit s c w))))
      = calls (snd (Commit s c w)) @
          [TxExec (tx (heap w p)) (''SAVEPOINT SP'' @ FormatUint (unat (savePoint (heap w p))))]"
proof -
  show "calls (snd (Commit s c w))
      = calls w @ [TxExec (tx (heap w p))
                     (''RELEASE SAVEPOINT SP'' @ FormatUint (unat (savePoint (heap w p))))]"
    using b pos by (simp add: Commit_bound Let_def split: option.splits)
  have "savePoint (heap (snd (Commit s c w)) p) = savePoint (heap w p) - 1"
    "tx (heap (snd (Commit s c w)) p) = tx (heap w p)"
    using b pos ok by (auto simp: Commit_bound Let_def split: option.splits)
  then show "calls (snd (StartTransaction s c (snd (Commit s c w))))
      = calls (snd (Commit s c w)) @
          [TxExec (tx (heap w p)) (''SAVEPOINT SP'' @ FormatUint (unat (savePoint (heap w p))))]"
    using nested_start_calls [OF b, of "snd (Commit s c w)"] by simp
qed

lemma nested_Rollback_then_Start:
  assumes b: "ctx_Value c (transactionKey s) = Trans p"
    and pos: "0 < savePoint (heap w p)"
    and ok: "snd (fst (Rollback s c w)) = None"
  shows "calls (snd (Rollback s c w))
      = calls w @ [TxExec (tx (heap w p))
                     (''ROLLBACK TO SAVEPOINT SP'' @ FormatUint (unat (savePoint (heap w p))))]"
    and "calls (snd (StartTransaction s c (snd (Rollback s c w))))
      = calls (snd (Rollback s c w)) @
          [TxExec (tx (heap w p)) (''SAVEPOINT SP'' @ FormatUint (unat (savePoint (heap w p))))]"
proof -
  show "calls (snd (Rollback s c w))
      = calls w @ [TxExec (tx (heap w p))
                     (''ROLLBACK TO SAVEPOINT SP'' @ FormatUint (unat (savePoint (heap w p))))]"
    using b pos by (simp add: Rollback_bound Let_def split: option.splits)
  have "savePoint (heap (snd (Rollback s c w)) p) = savePoint (heap w p) - 1"
    "tx (heap (snd (Rollback s c w)) p) = tx (heap w p)"
    using b pos ok by (auto simp: Rollback_bound Let_def split: option.splits)
  then show "calls (snd (StartTransaction s c (snd (Rollback s c w))))
      = calls (snd (Rollback s c w)) @
          [TxExec (tx (heap w p)) (''SAVEPOINT SP'' @ FormatUint (unat (savePoint (heap w p))))]"
    using nested_start_calls [OF b, of "snd (Rollback s c w)"] by simp
qed

text \<open>
  C4, amended. A nested \<^verbatim>\<open>StartTransaction\<close> at depth \<open>d\<close> issues \<^verbatim>\<open>SAVEPOINT SP\<close>\<open>(d + 1)\<close>.
  Over consecutive successful nested starts, with no \<^verbatim>\<open>Commit\<close> or \<^verbatim>\<open>Rollback\<close> between
  them and below \<open>2 ^ 64\<close>, the names are \<open>SP(d + 1)\<close>, \<open>SP(d + 2)\<close>, ...: increasing
  by one and pairwise distinct. A successful nested \<^verbatim>\<open>Commit\<close> or \<^verbatim>\<open>Rollback\<close> at any
  depth \<open>d\<close> above 0 sends \<^verbatim>\<open>RELEASE SAVEPOINT SP\<close>\<open>d\<close> or \<^verbatim>\<open>ROLLBACK TO SAVEPOINT SP\<close>\<open>d\<close>,
  and the next nested start then issues \<^verbatim>\<open>SAVEPOINT SP\<close>\<open>d\<close> again: the name just released
  or rolled back. In particular, a nested start that is undone and followed by another
  nested start sends the same statement twice.
\<close>

theorem savepoint_numbering:
  "ctx_Value c (transactionKey s) = Trans p \<Longrightarrow>
   calls (snd (StartTransaction s c w))
     = calls w @ [TxExec (tx (heap w p))
                    (''SAVEPOINT SP'' @ FormatUint (unat (savePoint (heap w p) + 1)))] \<and>
   (run_ops s (replicate n OpStart) c w = (Some c', w') \<and>
    unat (savePoint (heap w p)) + n < 2 ^ 64 \<longrightarrow>
      savepoints_issued (calls_since w w')
        = map (\<lambda>i. ''SP'' @ FormatUint (unat (savePoint (heap w p)) + Suc i)) [0..<n] \<and>
      distinct (savepoints_issued (calls_since w w'))) \<and>
   (0 < savePoint (heap w p) \<and> snd (fst (Commit s c w)) = None \<longrightarrow>
      calls (snd (Commit s c w))
        = calls w @ [TxExec (tx (heap w p))
            (''RELEASE SAVEPOINT SP'' @ FormatUint (unat (savePoint (heap w p))))] \<and>
      calls (snd (StartTransaction s c (snd (Commit s c w))))
        = calls (snd (Commit s c w)) @ [TxExec (tx (heap w p))
            (''SAVEPOINT SP'' @ FormatUint (unat (savePoint (heap w p))))] \<and>
      savepoints_issued (calls_since (snd (Commit s c w))
          (snd (StartTransaction s c (snd (Commit s c w)))))
        = [''SP'' @ FormatUint (unat (savePoint (heap w p)))]) \<and>
   (0 < savePoint (heap w p) \<and> snd (fst (Rollback s c w)) = None \<longrightarrow>
      calls (snd (Rollback s c w))
        = calls w @ [TxExec (tx (heap w p))
            (''ROLLBACK TO SAVEPOINT SP'' @ FormatUint (unat (savePoint (heap w p))))] \<and>
      calls (snd (StartTransaction s c (snd (Rollback s c w))))
        = calls (snd (Rollback s c w)) @ [TxExec (tx (heap w p))
            (''SAVEPOINT SP'' @ FormatUint (unat (savePoint (heap w p))))] \<and>
      savepoints_issued (calls_since (snd (Rollback s c w))
          (snd (StartTransaction s c (snd (Rollback s c w)))))
        = [''SP'' @ FormatUint (unat (savePoint (heap w p)))]) \<and>
   (snd (fst (StartTransaction s c w)) = None \<and> savePoint (heap w p) + 1 \<noteq> 0 \<longrightarrow>
      (snd (fst (Commit s c (snd (StartTransaction s c w)))) = None \<longrightarrow>
         calls_since (snd (Commit s c (snd (StartTransaction s c w))))
           (snd (StartTransaction s c (snd (Commit s c (snd (StartTransaction s c w))))))
         = calls_since w (snd (StartTransaction s c w))) \<and>
      (snd (fst (Rollback s c (snd (StartTransaction s c w)))) = None \<longrightarrow>
         calls_since (snd (Rollback s c (snd (StartTransaction s c w))))
           (snd (StartTransaction s c (snd (Rollback s c (snd (StartTransaction s c w))))))
         = calls_since w (snd (StartTransaction s c w))))"
proof (intro conjI impI)
  assume b: "ctx_Value c (transactionKey s) = Trans p"
  show "calls (snd (StartTransaction s c w))
     = calls w @ [TxExec (tx (heap w p))
                    (''SAVEPOINT SP'' @ FormatUint (unat (savePoint (heap w p) + 1)))]"
    by (rule nested_start_calls [OF b])
  {
    assume r: "run_ops s (replicate n OpStart) c w = (Some c', w') \<and>
      unat (savePoint (heap w p)) + n < 2 ^ 64"
    then show names: "savepoints_issued (calls_since w w')
        = map (\<lambda>i. ''SP'' @ FormatUint (unat (savePoint (heap w p)) + Suc i)) [0..<n]"
      using run_nested_starts_names [OF b] by blast
    show "distinct (savepoints_issued (calls_since w w'))"
      unfolding names by (rule distinct_names)
  }
  {
    assume a: "0 < savePoint (heap w p) \<and> snd (fst (Commit s c w)) = None"
    then have pos: "0 < savePoint (heap w p)" and ok: "snd (fst (Commit s c w)) = None"
      by simp_all
    show "calls (snd (Commit s c w))
        = calls w @ [TxExec (tx (heap w p))
            (''RELEASE SAVEPOINT SP'' @ FormatUint (unat (savePoint (heap w p))))]"
      by (rule nested_Commit_then_Start(1) [OF b pos ok])
    show again: "calls (snd (StartTransaction s c (snd (Commit s c w))))
        = calls (snd (Commit s c w)) @ [TxExec (tx (heap w p))
            (''SAVEPOINT SP'' @ FormatUint (unat (savePoint (heap w p))))]"
      by (rule nested_Commit_then_Start(2) [OF b pos ok])
    show "savepoints_issued (calls_since (snd (Commit s c w))
          (snd (StartTransaction s c (snd (Commit s c w)))))
        = [''SP'' @ FormatUint (unat (savePoint (heap w p)))]"
      unfolding calls_since_append [OF again]
      by (simp add: savepoints_issued_def List.map_filter_simps)
  }
  {
    assume a: "0 < savePoint (heap w p) \<and> snd (fst (Rollback s c w)) = None"
    then have pos: "0 < savePoint (heap w p)" and ok: "snd (fst (Rollback s c w)) = None"
      by simp_all
    show "calls (snd (Rollback s c w))
        = calls w @ [TxExec (tx (heap w p))
            (''ROLLBACK TO SAVEPOINT SP'' @ FormatUint (unat (savePoint (heap w p))))]"
      by (rule nested_Rollback_then_Start(1) [OF b pos ok])
    show again: "calls (snd (StartTransaction s c (snd (Rollback s c w))))
        = calls (snd (Rollback s c w)) @ [TxExec (tx (heap w p))
            (''SAVEPOINT SP'' @ FormatUint (unat (savePoint (heap w p))))]"
      by (rule nested_Rollback_then_Start(2) [OF b pos ok])
    show "savepoints_issued (calls_since (snd (Rollback s c w))
          (snd (StartTransaction s c (snd (Rollback s c w)))))
        = [''SP'' @ FormatUint (unat (savePoint (heap w p)))]"
      unfolding calls_since_append [OF again]
      by (simp add: savepoints_issued_def List.map_filter_simps)
  }
  {
    assume a: "snd (fst (StartTransaction s c w)) = None \<and> savePoint (heap w p) + 1 \<noteq> 0"
    then have ok: "snd (fst (StartTransaction s c w)) = None"
      and nz: "savePoint (heap w p) + 1 \<noteq> 0" by simp_all
    {
      assume "snd (fst (Commit s c (snd (StartTransaction s c w)))) = None"
      then show "calls_since (snd (Commit s c (snd (StartTransaction s c w))))
           (snd (StartTransaction s c (snd (Commit s c (snd (StartTransaction s c w))))))
         = calls_since w (snd (StartTransaction s c w))"
        by (rule nested_start_again(1) [OF b nz ok])
    }
    {
      assume "snd (fst (Rollback s c (snd (StartTransaction s c w)))) = None"
      then show "calls_since (snd (Rollback s c (snd (StartTransaction s c w))))
           (snd (StartTransaction s c (snd (Rollback s c (snd (StartTransaction s c w))))))
         = calls_since w (snd (StartTransaction s c w))"
        by (rule nested_start_again(2) [OF b nz ok])
    }
  }
qed

lemma FormatUint_Suc_Suc_0 [simp]: "FormatUint (Suc (Suc 0)) = ''2''"
  by (simp add: FormatUint_digit digit_char_def)

theorem savepoint_numbering_witness:
  "savepoints_issued (calls_since (snd (run_ops (coordinator accept_all) [OpStart] [] world0))
      (snd (run_ops (coordinator accept_all) [OpStart, OpStart]
         [(transactionKey (coordinator accept_all), Trans 0)]
         (snd (run_ops (coordinator accept_all) [OpStart] [] world0)))))
     = [''SP1'', ''SP2''] \<and>
   calls (snd (StartTransaction (coordinator accept_all)
      [(transactionKey (coordinator accept_all), Trans 0)]
      (snd (run_ops (coordinator accept_all) [OpStart, OpStart, OpStart, OpCommit] [] world0))))
     = [DbBegin, TxExec 0 ''SAVEPOINT SP1'', TxExec 0 ''SAVEPOINT SP2'',
        TxExec 0 ''RELEASE SAVEPOINT SP2'', TxExec 0 ''SAVEPOINT SP2''] \<and>
   calls (snd (StartTransaction (coordinator accept_all)
      [(transactionKey (coordinator accept_all), Trans 0)]
      (snd (run_ops (coordinator accept_all) [OpStart, OpStart, OpStart, OpRollback] [] world0))))
     = [DbBegin, TxExec 0 ''SAVEPOINT SP1'', TxExec 0 ''SAVEPOINT SP2'',
        TxExec 0 ''ROLLBACK TO SAVEPOINT SP2'', TxExec 0 ''SAVEPOINT SP2'']"
proof -
  let ?s = "coordinator accept_all"
  let ?c = "[(transactionKey ?s, Trans 0)]"
  let ?w = "snd (run_ops ?s [OpStart] [] world0)"
  let ?w' = "snd (run_ops ?s [OpStart, OpStart] ?c ?w)"
  let ?v = "snd (run_ops ?s [OpStart, OpStart, OpStart] [] world0)"
  have bound: "ctx_Value ?c (transactionKey ?s) = Trans 0"
    by simp
  have flat: "savePoint (heap ?w 0) = 0"
    by (simp add: StartTransaction_root Let_def)
  have "fst (run_ops ?s [OpStart, OpStart] ?c ?w) = Some ?c"
    by (simp add: StartTransaction_nested Let_def)
  then have run: "run_ops ?s [OpStart, OpStart] ?c ?w = (Some ?c, ?w')"
    by (simp add: prod_eq_iff del: run_ops.simps)
  have names: "savepoints_issued (calls_since ?w ?w') = [''SP1'', ''SP2'']"
    using savepoint_numbering [OF bound, of ?w "Suc (Suc 0)" ?c ?w'] run flat
    by (simp del: run_ops.simps)
  have deep: "savePoint (heap ?v 0) = 2" "tx (heap ?v 0) = 0"
    "calls ?v = [DbBegin, TxExec 0 ''SAVEPOINT SP1'', TxExec 0 ''SAVEPOINT SP2'']"
    by (simp_all add: StartTransaction_root StartTransaction_nested Let_def WithValue_def)
  have ok: "snd (fst (Commit ?s ?c ?v)) = None" "snd (fst (Rollback ?s ?c ?v)) = None"
    by (simp_all add: Commit_bound Rollback_bound Let_def)
  have vc: "snd (run_ops ?s [OpStart, OpStart, OpStart, OpCommit] [] world0) = snd (Commit ?s ?c ?v)"
    and vr: "snd (run_ops ?s [OpStart, OpStart, OpStart, OpRollback] [] world0)
      = snd (Rollback ?s ?c ?v)"
    by (simp_all add: StartTransaction_root StartTransaction_nested Commit_bound Rollback_bound
        Let_def WithValue_def)
  have again:
    "calls (snd (StartTransaction ?s ?c (snd (Commit ?s ?c ?v))))
       = [DbBegin, TxExec 0 ''SAVEPOINT SP1'', TxExec 0 ''SAVEPOINT SP2'',
          TxExec 0 ''RELEASE SAVEPOINT SP2'', TxExec 0 ''SAVEPOINT SP2'']"
    "calls (snd (StartTransaction ?s ?c (snd (Rollback ?s ?c ?v))))
       = [DbBegin, TxExec 0 ''SAVEPOINT SP1'', TxExec 0 ''SAVEPOINT SP2'',
          TxExec 0 ''ROLLBACK TO SAVEPOINT SP2'', TxExec 0 ''SAVEPOINT SP2'']"
    using savepoint_numbering [OF bound, of ?v 0 ?c ?v] deep ok
    by (simp_all del: run_ops.simps)
  show ?thesis
    unfolding vc vr using names again by (simp del: run_ops.simps)
qed

text \<open>
  What the depth is after a nested start whose statement the driver refused (see C3).
\<close>

lemma nested_start_failure_depth:
  "ctx_Value c (transactionKey s) = Trans p \<Longrightarrow>
   snd (fst (StartTransaction s c w)) \<noteq> None \<Longrightarrow>
   savePoint (heap (snd (StartTransaction s c w)) p) = savePoint (heap w p) + 1"
  by (simp add: StartTransaction_nested Let_def split: option.splits)

subsection \<open>After the real transaction has ended\<close>

lemma once_only_simps [simp]:
  "once_only h DbBegin = None"
  "once_only h (TxExec x q) = (if tx_done h x then Some ErrTxDone else None)"
  "once_only h (TxCommit x) = (if tx_done h x then Some ErrTxDone else None)"
  "once_only h (TxRollback x) = (if tx_done h x then Some ErrTxDone else None)"
  by (simp_all add: once_only_def)

text \<open>
  C5, as stated, fails: contexts are immutable, so the context that was passed to the
  finalizing \<^verbatim>\<open>Commit\<close> still binds the Handle afterwards. With a driver that answers
  \<^verbatim>\<open>sql.ErrTxDone\<close> on a finished transaction, a second \<^verbatim>\<open>Commit\<close> on that old context
  calls the driver again and returns the driver's error, not "No started transaction";
  \<^verbatim>\<open>Rollback\<close> and \<^verbatim>\<open>StartTransaction\<close> on it also call the driver on the finished
  transaction (a context with no binding would make \<^verbatim>\<open>StartTransaction\<close> call \<^verbatim>\<open>Begin\<close>),
  \<^verbatim>\<open>GetTransaction\<close> still returns the transaction, and \<^verbatim>\<open>UseTransaction\<close> is refused.
\<close>

theorem finalized_handle_counterexample:
  "fst (run_ops (coordinator once_only) [OpStart] [] world0)
     = Some [(transactionKey (coordinator once_only), Trans 0)] \<and>
   fst (run_ops (coordinator once_only) [OpStart, OpCommit] [] world0)
     = Some [(transactionKey (coordinator once_only), NilVal),
             (transactionKey (coordinator once_only), Trans 0)] \<and>
   fst (Commit (coordinator once_only) [(transactionKey (coordinator once_only), Trans 0)]
          (snd (run_ops (coordinator once_only) [OpStart, OpCommit] [] world0)))
     = (None, Some ErrTxDone) \<and>
   fst (Commit (coordinator once_only) [(transactionKey (coordinator once_only), Trans 0)]
          (snd (run_ops (coordinator once_only) [OpStart, OpCommit] [] world0)))
     \<noteq> (None, Some (QError ''No started transaction'')) \<and>
   calls (snd (Commit (coordinator once_only)
          [(transactionKey (coordinator once_only), Trans 0)]
          (snd (run_ops (coordinator once_only) [OpStart, OpCommit] [] world0))))
     = [DbBegin, TxCommit 0, TxCommit 0] \<and>
   calls (snd (Rollback (coordinator once_only)
          [(transactionKey (coordinator once_only), Trans 0)]
          (snd (run_ops (coordinator once_only) [OpStart, OpCommit] [] world0))))
     = [DbBegin, TxCommit 0, TxRollback 0] \<and>
   calls (snd (StartTransaction (coordinator once_only)
          [(transactionKey (coordinator once_only), Trans 0)]
          (snd (run_ops (coordinator once_only) [OpStart, OpCommit] [] world0))))
     = [DbBegin, TxCommit 0, TxExec 0 ''SAVEPOINT SP1''] \<and>
   calls (snd (StartTransaction (coordinator once_only) []
          (snd (run_ops (coordinator once_only) [OpStart, OpCommit] [] world0))))
     = [DbBegin, TxCommit 0, DbBegin] \<and>
   GetTransaction (coordinator once_only) [(transactionKey (coordinator once_only), Trans 0)]
          (snd (run_ops (coordinator once_only) [OpStart, OpCommit] [] world0)) = Some 0 \<and>
   GetTransaction (coordinator once_only) []
          (snd (run_ops (coordinator once_only) [OpStart, OpCommit] [] world0)) = None \<and>
   fst (UseTransaction (coordinator once_only)
          [(transactionKey (coordinator once_only), Trans 0)] (Some 5)
          (snd (run_ops (coordinator once_only) [OpStart, OpCommit] [] world0)))
     = (None, Some (QError ''Transaction already started''))"
  by (simp add: StartTransaction_root StartTransaction_nested Commit_bound Rollback_bound
      Let_def WithValue_def tx_done_def ErrTxDone_def GetTransaction_def UseTransaction_def)

text \<open>
  C5, amended. A successful \<^verbatim>\<open>Commit\<close> or \<^verbatim>\<open>Rollback\<close> at depth 0 returns a context in
  which the Handle binding is cleared, and every later operation on that returned context
  behaves as on a context with no binding: \<^verbatim>\<open>Commit\<close> and \<^verbatim>\<open>Rollback\<close> fail with
  "No started transaction" and leave the world alone, \<^verbatim>\<open>GetTransaction\<close> returns nil,
  \<^verbatim>\<open>StartTransaction\<close> calls \<^verbatim>\<open>Begin\<close>, \<^verbatim>\<open>UseTransaction\<close> binds the transaction it is
  given; each of them does to the world, and returns as error, what it does on the empty
  context. The context that was passed in is unchanged: it still binds the Handle and
  still gives access to its real transaction.
\<close>

theorem finalize_clears_returned_context:
  "ctx_Value c (transactionKey s) = Trans p \<Longrightarrow> savePoint (heap w p) = 0 \<Longrightarrow>
   fst (Commit s c w) = (Some c', None) \<or> fst (Rollback s c w) = (Some c', None) \<Longrightarrow>
   ctx_Value c' (transactionKey s) = NilVal \<and>
   Commit s c' v = ((None, Some (QError ''No started transaction'')), v) \<and>
   Rollback s c' v = ((None, Some (QError ''No started transaction'')), v) \<and>
   GetTransaction s c' v = None \<and>
   calls (snd (StartTransaction s c' v)) = calls v @ [DbBegin] \<and>
   fst (UseTransaction s c' (Some x) v)
     = (Some (WithValue c' (transactionKey s) (Trans (next_trans v))), None) \<and>
   Commit s c' v = Commit s [] v \<and>
   Rollback s c' v = Rollback s [] v \<and>
   GetTransaction s c' v = GetTransaction s [] v \<and>
   snd (StartTransaction s c' v) = snd (StartTransaction s [] v) \<and>
   snd (fst (StartTransaction s c' v)) = snd (fst (StartTransaction s [] v)) \<and>
   snd (UseTransaction s c' y v) = snd (UseTransaction s [] y v) \<and>
   snd (fst (UseTransaction s c' y v)) = snd (fst (UseTransaction s [] y v)) \<and>
   ctx_Value c (transactionKey s) = Trans p \<and>
   GetTransaction s c (snd (Commit s c w)) = Some (tx (heap w p)) \<and>
   GetTransaction s c (snd (Rollback s c w)) = Some (tx (heap w p))"
proof -
  assume b: "ctx_Value c (transactionKey s) = Trans p" and z: "savePoint (heap w p) = 0"
    and fin: "fst (Commit s c w) = (Some c', None) \<or> fst (Rollback s c w) = (Some c', None)"
  from fin have "c' = WithValue c (transactionKey s) NilVal"
    using final_Commit_ok(1) [OF b z] final_Rollback_ok(1) [OF b z] by auto
  then have u: "ctx_Value c' (transactionKey s) = NilVal" by simp
  have g: "GetTransaction s c w = Some (tx (heap w p))"
    using b by (simp add: GetTransaction_def)
  show ?thesis
    using b g
    by (simp add: u Commit_unbound Rollback_unbound StartTransaction_root UseTransaction_def
        new_transaction_def Let_def GetTransaction_Commit GetTransaction_Rollback
        GetTransaction_def [of s c'] GetTransaction_def [of s "[]"]
        split: option.splits prod.splits)
qed

theorem finalize_clears_returned_context_witness:
  "fst (Commit (coordinator accept_all) [(transactionKey (coordinator accept_all), Trans 0)]
          (snd (run_ops (coordinator accept_all) [OpStart] [] world0)))
     = (Some [(transactionKey (coordinator accept_all), NilVal),
              (transactionKey (coordinator accept_all), Trans 0)], None) \<and>
   fst (Commit (coordinator accept_all)
          [(transactionKey (coordinator accept_all), NilVal),
           (transactionKey (coordinator accept_all), Trans 0)]
          (snd (run_ops (coordinator accept_all) [OpStart, OpCommit] [] world0)))
     = (None, Some (QError ''No started transaction'')) \<and>
   GetTransaction (coordinator accept_all)
          [(transactionKey (coordinator accept_all), NilVal),
           (transactionKey (coordinator accept_all), Trans 0)]
          (snd (run_ops (coordinator accept_all) [OpStart, OpCommit] [] world0)) = None \<and>
   calls (snd (StartTransaction (coordinator accept_all)
          [(transactionKey (coordinator accept_all), NilVal),
           (transactionKey (coordinator accept_all), Trans 0)]
          (snd (run_ops (coordinator accept_all) [OpStart, OpCommit] [] world0))))
     = [DbBegin, TxCommit 0, DbBegin]"
proof -
  let ?s = "coordinator accept_all"
  let ?c = "[(transactionKey ?s, Trans 0)]"
  let ?c' = "[(transactionKey ?s, NilVal), (transactionKey ?s, Trans 0)]"
  let ?w = "snd (run_ops ?s [OpStart] [] world0)"
  let ?v = "snd (run_ops ?s [OpStart, OpCommit] [] world0)"
  have bound: "ctx_Value ?c (transactionKey ?s) = Trans 0"
    by simp
  have flat: "savePoint (heap ?w 0) = 0"
    by (simp add: StartTransaction_root Let_def)
  have fin: "fst (Commit ?s ?c ?w) = (Some ?c', None)"
    by (simp add: StartTransaction_root Commit_bound Let_def WithValue_def)
  have log: "calls ?v = [DbBegin, TxCommit 0]"
    by (simp add: StartTransaction_root Commit_bound Let_def WithValue_def)
  show ?thesis
    using finalize_clears_returned_context [OF bound flat disjI1 [OF fin], of ?v 0 None]
      fin log
    by (simp add: StartTransaction_root Let_def del: run_ops.simps)
qed

subsection \<open>\<^verbatim>\<open>DoInTransaction\<close>\<close>

lemma start_ok_bound:
  "StartTransaction s c w = ((Some c1, None), w1) \<Longrightarrow>
     \<exists>p. ctx_Value c1 (transactionKey s) = Trans p"
  by (cases "ctx_Value c (transactionKey s)")
     (auto simp: StartTransaction_root StartTransaction_nested Let_def split: option.splits)

lemma Rollback_bound_calls:
  "ctx_Value c (transactionKey s) = Trans p \<Longrightarrow>
   calls (snd (Rollback s c w)) = calls w @
     [if 0 < savePoint (heap w p)
      then TxExec (tx (heap w p))
             (''ROLLBACK TO SAVEPOINT SP'' @ FormatUint (unat (savePoint (heap w p))))
      else TxRollback (tx (heap w p))]"
  by (simp add: Rollback_bound Let_def split: option.splits)

lemma DoInTransaction_start_fails:
  "fst (StartTransaction s c w) = (r, Some e) \<Longrightarrow>
     DoInTransaction s c f w = (Returns (Some e), snd (StartTransaction s c w))"
  by (cases "StartTransaction s c w") (auto simp: DoInTransaction_def split: option.splits)

lemma DoInTransaction_fn_fails:
  "StartTransaction s c w = ((Some c1, None), w1) \<Longrightarrow> f c1 w1 = (Some e, w2) \<Longrightarrow>
     DoInTransaction s c f w = (Returns (Some e), snd (Rollback s c1 w2))"
  by (simp add: DoInTransaction_def)

lemma DoInTransaction_commit_fails:
  "StartTransaction s c w = ((Some c1, None), w1) \<Longrightarrow> f c1 w1 = (None, w2) \<Longrightarrow>
   Commit s c1 w2 = ((r, Some e), w3) \<Longrightarrow>
     DoInTransaction s c f w = (Returns (Some e), snd (Rollback s c1 w3))"
  by (simp add: DoInTransaction_def)

lemma DoInTransaction_commits:
  "StartTransaction s c w = ((Some c1, None), w1) \<Longrightarrow> f c1 w1 = (None, w2) \<Longrightarrow>
   Commit s c1 w2 = ((r, None), w3) \<Longrightarrow>
     DoInTransaction s c f w = (Returns None, w3)"
  by (simp add: DoInTransaction_def)

lemma DoInTransaction_top_level:
  assumes u: "ctx_Value c (transactionKey s) = NilVal"
    and st: "StartTransaction s c w = ((Some c1, None), w1)"
    and fn: "f c1 w1 = (Some e, w2)"
  shows "fst (DoInTransaction s c f w) = Returns (Some e)"
    and "calls w1 = calls w @ [DbBegin]"
    and "ctx_Value c1 (transactionKey s) = Trans (next_trans w)"
    and "heap w1 (next_trans w) = \<lparr>tx = next_tx w, savePoint = 0\<rparr>"
    and "savePoint (heap w2 (next_trans w)) = 0 \<Longrightarrow>
          calls (snd (DoInTransaction s c f w))
            = calls w2 @ [TxRollback (tx (heap w2 (next_trans w)))]"
    and "0 < savePoint (heap w2 (next_trans w)) \<Longrightarrow>
          calls (snd (DoInTransaction s c f w))
            = calls w2 @ [TxExec (tx (heap w2 (next_trans w)))
                (''ROLLBACK TO SAVEPOINT SP'' @
                   FormatUint (unat (savePoint (heap w2 (next_trans w)))))]"
proof -
  note r = root_start_ok [OF u st]
  show b: "ctx_Value c1 (transactionKey s) = Trans (next_trans w)"
    using r(1) by simp
  show "fst (DoInTransaction s c f w) = Returns (Some e)"
    using DoInTransaction_fn_fails [where f = f, OF st fn] by simp
  show "calls w1 = calls w @ [DbBegin]"
    by (rule r(3))
  show "heap w1 (next_trans w) = \<lparr>tx = next_tx w, savePoint = 0\<rparr>"
    by (rule r(2))
  show "savePoint (heap w2 (next_trans w)) = 0 \<Longrightarrow>
          calls (snd (DoInTransaction s c f w))
            = calls w2 @ [TxRollback (tx (heap w2 (next_trans w)))]"
    using DoInTransaction_fn_fails [where f = f, OF st fn] Rollback_bound_calls [OF b, of w2]
    by simp
  show "0 < savePoint (heap w2 (next_trans w)) \<Longrightarrow>
          calls (snd (DoInTransaction s c f w))
            = calls w2 @ [TxExec (tx (heap w2 (next_trans w)))
                (''ROLLBACK TO SAVEPOINT SP'' @
                   FormatUint (unat (savePoint (heap w2 (next_trans w)))))]"
    using DoInTransaction_fn_fails [where f = f, OF st fn] Rollback_bound_calls [OF b, of w2]
    by simp
qed

lemma DoInTransaction_returns: "fst (DoInTransaction s c f w) \<noteq> Panics"
  using StartTransaction_result [of s c w]
  by (cases "StartTransaction s c w")
     (auto simp: DoInTransaction_def split: option.splits prod.splits)

text \<open>
  C6, as stated, fails in its last part: after a failing \<^verbatim>\<open>f\<close>, \<^verbatim>\<open>DoInTransaction\<close> calls
  \<^verbatim>\<open>Rollback\<close> once, and \<^verbatim>\<open>Rollback\<close> acts on the depth it finds. Called on a context
  with no Handle bound, with an \<^verbatim>\<open>f\<close> that opens a nested scope, leaves it open and
  fails, it sends \<^verbatim>\<open>BEGIN\<close>, \<^verbatim>\<open>SAVEPOINT SP1\<close>, \<^verbatim>\<open>ROLLBACK TO SAVEPOINT SP1\<close> and never
  calls \<^verbatim>\<open>Rollback\<close> on the real transaction. The same calls are made when \<^verbatim>\<open>f\<close> is a
  nested \<^verbatim>\<open>DoInTransaction\<close> whose \<^verbatim>\<open>SAVEPOINT\<close> statement the driver refuses.
\<close>

theorem scenario_B_counterexample:
  "fst (DoInTransaction (coordinator accept_all) [] (leaky_fn (coordinator accept_all)) world0)
     = Returns (Some (QError ''fn failed'')) \<and>
   calls (snd (DoInTransaction (coordinator accept_all) []
       (leaky_fn (coordinator accept_all)) world0))
     = [DbBegin, TxExec 0 ''SAVEPOINT SP1'', TxExec 0 ''ROLLBACK TO SAVEPOINT SP1''] \<and>
   TxRollback 0 \<notin> set (calls (snd (DoInTransaction (coordinator accept_all) []
       (leaky_fn (coordinator accept_all)) world0))) \<and>
   fst (DoInTransaction (coordinator refuse_exec) [] (nested_fn (coordinator refuse_exec)) world0)
     = Returns (Some (DriverError ''exec failed'')) \<and>
   calls (snd (DoInTransaction (coordinator refuse_exec) []
       (nested_fn (coordinator refuse_exec)) world0))
     = [DbBegin, TxExec 0 ''SAVEPOINT SP1'', TxExec 0 ''ROLLBACK TO SAVEPOINT SP1''] \<and>
   TxRollback 0 \<notin> set (calls (snd (DoInTransaction (coordinator refuse_exec) []
       (nested_fn (coordinator refuse_exec)) world0)))"
  by (simp add: DoInTransaction_def leaky_fn_def nested_fn_def StartTransaction_root
      StartTransaction_nested Rollback_bound Let_def WithValue_def)

text \<open>
  C6, amended. \<^verbatim>\<open>DoInTransaction\<close>: if \<^verbatim>\<open>StartTransaction\<close> fails, its error is returned
  and the world is the one \<^verbatim>\<open>StartTransaction\<close> left (\<^verbatim>\<open>f\<close> does not run). If \<^verbatim>\<open>f\<close> returns
  an error, \<^verbatim>\<open>Rollback\<close> runs once on the context \<^verbatim>\<open>f\<close> was given, making one call on the
  driver, and the error of \<^verbatim>\<open>f\<close> is returned whatever \<^verbatim>\<open>Rollback\<close> returned. If \<^verbatim>\<open>f\<close>
  succeeds and \<^verbatim>\<open>Commit\<close> fails, \<^verbatim>\<open>Rollback\<close> runs once in the same way and the error of
  \<^verbatim>\<open>Commit\<close> is returned; if \<^verbatim>\<open>Commit\<close> succeeds, nil is returned. Scenario B: called on
  a context with no Handle bound, with an \<^verbatim>\<open>f\<close> that fails, \<^verbatim>\<open>DoInTransaction\<close> calls
  \<^verbatim>\<open>Begin\<close> before \<^verbatim>\<open>f\<close>, makes one call after it, never \<^verbatim>\<open>Commit\<close>, and returns the
  error of \<^verbatim>\<open>f\<close>. When \<^verbatim>\<open>f\<close> has left the Handle at depth 0, that call is \<^verbatim>\<open>Rollback\<close> on
  the real transaction; when \<^verbatim>\<open>f\<close> has left it at a depth \<open>d\<close> above 0, that call is
  \<^verbatim>\<open>ROLLBACK TO SAVEPOINT SP\<close>\<open>d\<close> and the real transaction is neither rolled back nor
  committed.
\<close>

theorem DoInTransaction_protocol:
  "(fst (StartTransaction s c w) = (r, Some e) \<longrightarrow>
      DoInTransaction s c f w = (Returns (Some e), snd (StartTransaction s c w))) \<and>
   (StartTransaction s c w = ((Some c1, None), w1) \<and> f c1 w1 = (Some e, w2) \<longrightarrow>
      DoInTransaction s c f w = (Returns (Some e), snd (Rollback s c1 w2)) \<and>
      (\<exists>p. ctx_Value c1 (transactionKey s) = Trans p \<and>
           calls (snd (Rollback s c1 w2)) = calls w2 @
             [if 0 < savePoint (heap w2 p)
              then TxExec (tx (heap w2 p))
                     (''ROLLBACK TO SAVEPOINT SP'' @ FormatUint (unat (savePoint (heap w2 p))))
              else TxRollback (tx (heap w2 p))])) \<and>
   (StartTransaction s c w = ((Some c1, None), w1) \<and> f c1 w1 = (None, w2) \<and>
    Commit s c1 w2 = ((r, Some e), w3) \<longrightarrow>
      DoInTransaction s c f w = (Returns (Some e), snd (Rollback s c1 w3)) \<and>
      (\<exists>p. ctx_Value c1 (transactionKey s) = Trans p \<and>
           calls (snd (Rollback s c1 w3)) = calls w3 @
             [if 0 < savePoint (heap w3 p)
              then TxExec (tx (heap w3 p))
                     (''ROLLBACK TO SAVEPOINT SP'' @ FormatUint (unat (savePoint (heap w3 p))))
              else TxRollback (tx (heap w3 p))])) \<and>
   (StartTransaction s c w = ((Some c1, None), w1) \<and> f c1 w1 = (None, w2) \<and>
    Commit s c1 w2 = ((r, None), w3) \<longrightarrow>
      DoInTransaction s c f w = (Returns None, w3)) \<and>
   (ctx_Value c (transactionKey s) = NilVal \<and>
    StartTransaction s c w = ((Some c1, None), w1) \<and> f c1 w1 = (Some e, w2) \<longrightarrow>
      fst (DoInTransaction s c f w) = Returns (Some e) \<and>
      calls w1 = calls w @ [DbBegin] \<and>
      ctx_Value c1 (transactionKey s) = Trans (next_trans w) \<and>
      heap w1 (next_trans w) = \<lparr>tx = next_tx w, savePoint = 0\<rparr> \<and>
      (savePoint (heap w2 (next_trans w)) = 0 \<longrightarrow>
         calls (snd (DoInTransaction s c f w))
           = calls w2 @ [TxRollback (tx (heap w2 (next_trans w)))]) \<and>
      (0 < savePoint (heap w2 (next_trans w)) \<longrightarrow>
         calls (snd (DoInTransaction s c f w))
           = calls w2 @ [TxExec (tx (heap w2 (next_trans w)))
               (''ROLLBACK TO SAVEPOINT SP'' @
                  FormatUint (unat (savePoint (heap w2 (next_trans w)))))]))"
proof (intro conjI impI)
  assume "fst (StartTransaction s c w) = (r, Some e)"
  then show "DoInTransaction s c f w = (Returns (Some e), snd (StartTransaction s c w))"
    by (rule DoInTransaction_start_fails)
next
  assume a: "StartTransaction s c w = ((Some c1, None), w1) \<and> f c1 w1 = (Some e, w2)"
  then show "DoInTransaction s c f w = (Returns (Some e), snd (Rollback s c1 w2))"
    by (simp add: DoInTransaction_fn_fails)
  from a obtain p where "ctx_Value c1 (transactionKey s) = Trans p"
    using start_ok_bound by blast
  then show "\<exists>p. ctx_Value c1 (transactionKey s) = Trans p \<and>
           calls (snd (Rollback s c1 w2)) = calls w2 @
             [if 0 < savePoint (heap w2 p)
              then TxExec (tx (heap w2 p))
                     (''ROLLBACK TO SAVEPOINT SP'' @ FormatUint (unat (savePoint (heap w2 p))))
              else TxRollback (tx (heap w2 p))]"
    using Rollback_bound_calls by blast
next
  assume a: "StartTransaction s c w = ((Some c1, None), w1) \<and> f c1 w1 = (None, w2) \<and>
    Commit s c1 w2 = ((r, Some e), w3)"
  then show "DoInTransaction s c f w = (Returns (Some e), snd (Rollback s c1 w3))"
    by (simp add: DoInTransaction_commit_fails)
  from a obtain p where "ctx_Value c1 (transactionKey s) = Trans p"
    using start_ok_bound by blast
  then show "\<exists>p. ctx_Value c1 (transactionKey s) = Trans p \<and>
           calls (snd (Rollback s c1 w3)) = calls w3 @
             [if 0 < savePoint (heap w3 p)
              then TxExec (tx (heap w3 p))
                     (''ROLLBACK TO SAVEPOINT SP'' @ FormatUint (unat (savePoint (heap w3 p))))
              else TxRollback (tx (heap w3 p))]"
    using Rollback_bound_calls by blast
next
  assume "StartTransaction s c w = ((Some c1, None), w1) \<and> f c1 w1 = (None, w2) \<and>
    Commit s c1 w2 = ((r, None), w3)"
  then show "DoInTransaction s c f w = (Returns None, w3)"
    by (simp add: DoInTransaction_commits)
next
  assume a: "ctx_Value c (transactionKey s) = NilVal \<and>
    StartTransaction s c w = ((Some c1, None), w1) \<and> f c1 w1 = (Some e, w2)"
  then have u: "ctx_Value c (transactionKey s) = NilVal"
    and st: "StartTransaction s c w = ((Some c1, None), w1)"
    and fn: "f c1 w1 = (Some e, w2)" by simp_all
  note top = DoInTransaction_top_level [where f = f, OF u st fn]
  show "fst (DoInTransaction s c f w) = Returns (Some e)"
    by (rule top(1))
  show "calls w1 = calls w @ [DbBegin]"
    by (rule top(2))
  show "ctx_Value c1 (transactionKey s) = Trans (next_trans w)"
    by (rule top(3))
  show "heap w1 (next_trans w) = \<lparr>tx = next_tx w, savePoint = 0\<rparr>"
    by (rule top(4))
  {
    assume "savePoint (heap w2 (next_trans w)) = 0"
    then show "calls (snd (DoInTransaction s c f w))
        = calls w2 @ [TxRollback (tx (heap w2 (next_trans w)))]"
      by (rule top(5))
  }
  {
    assume "0 < savePoint (heap w2 (next_trans w))"
    then show "calls (snd (DoInTransaction s c f w))
        = calls w2 @ [TxExec (tx (heap w2 (next_trans w)))
            (''ROLLBACK TO SAVEPOINT SP'' @
               FormatUint (unat (savePoint (heap w2 (next_trans w)))))]"
      by (rule top(6))
  }
qed

lemma fn_simps [simp]:
  "failing_fn c w = (Some (QError ''fn failed''), w)"
  "passing_fn c w = (None, w)"
  by (simp_all add: failing_fn_def passing_fn_def)

theorem DoInTransaction_protocol_witness:
  "fst (DoInTransaction (coordinator only_begin)
          [(transactionKey (coordinator only_begin), Trans 0)] failing_fn world0)
     = Returns (Some (DriverError ''refused'')) \<and>
   calls (snd (DoInTransaction (coordinator only_begin)
          [(transactionKey (coordinator only_begin), Trans 0)] failing_fn world0))
     = [TxExec 0 ''SAVEPOINT SP1''] \<and>
   fst (DoInTransaction (coordinator only_begin) [] failing_fn world0)
     = Returns (Some (QError ''fn failed'')) \<and>
   calls (snd (DoInTransaction (coordinator only_begin) [] failing_fn world0))
     = [DbBegin, TxRollback 0] \<and>
   fst (DoInTransaction (coordinator only_begin) [] passing_fn world0)
     = Returns (Some (DriverError ''refused'')) \<and>
   calls (snd (DoInTransaction (coordinator only_begin) [] passing_fn world0))
     = [DbBegin, TxCommit 0, TxRollback 0] \<and>
   fst (DoInTransaction (coordinator accept_all) [] passing_fn world0) = Returns None \<and>
   calls (snd (DoInTransaction (coordinator accept_all) [] passing_fn world0))
     = [DbBegin, TxCommit 0] \<and>
   fst (DoInTransaction (coordinator accept_all) [] failing_fn world0)
     = Returns (Some (QError ''fn failed'')) \<and>
   calls (snd (DoInTransaction (coordinator accept_all) [] failing_fn world0))
     = [DbBegin, TxRollback 0] \<and>
   calls (snd (DoInTransaction (coordinator accept_all) []
       (leaky_fn (coordinator accept_all)) world0))
     = [DbBegin, TxExec 0 ''SAVEPOINT SP1'', TxExec 0 ''ROLLBACK TO SAVEPOINT SP1'']"
proof -
  let ?r = "coordinator only_begin"
  let ?a = "coordinator accept_all"
  let ?cr = "[(transactionKey ?r, Trans 0)]"
  let ?ca = "[(transactionKey ?a, Trans 0)]"
  let ?wr = "snd (StartTransaction ?r [] world0)"
  let ?wa = "snd (StartTransaction ?a [] world0)"
  have nested: "fst (StartTransaction ?r ?cr world0) = (None, Some (DriverError ''refused''))"
    by (simp add: StartTransaction_nested Let_def)
  have "fst (StartTransaction ?r [] world0) = (Some ?cr, None)"
    by (simp add: StartTransaction_root Let_def WithValue_def)
  then have start_r: "StartTransaction ?r [] world0 = ((Some ?cr, None), ?wr)"
    by (simp add: prod_eq_iff)
  have "fst (StartTransaction ?a [] world0) = (Some ?ca, None)"
    by (simp add: StartTransaction_root Let_def WithValue_def)
  then have start_a: "StartTransaction ?a [] world0 = ((Some ?ca, None), ?wa)"
    by (simp add: prod_eq_iff)
  have "fst (Commit ?r ?cr ?wr) = (None, Some (DriverError ''refused''))"
    by (simp add: StartTransaction_root Commit_bound Let_def)
  then have commit_r:
    "Commit ?r ?cr ?wr = ((None, Some (DriverError ''refused'')), snd (Commit ?r ?cr ?wr))"
    by (simp add: prod_eq_iff)
  have "fst (Commit ?a ?ca ?wa) = (Some ((transactionKey ?a, NilVal) # ?ca), None)"
    by (simp add: StartTransaction_root Commit_bound Let_def WithValue_def)
  then have commit_a:
    "Commit ?a ?ca ?wa = ((Some ((transactionKey ?a, NilVal) # ?ca), None), snd (Commit ?a ?ca ?wa))"
    by (simp add: prod_eq_iff)
  have logs:
    "calls (snd (StartTransaction ?r ?cr world0)) = [TxExec 0 ''SAVEPOINT SP1'']"
    "calls (snd (Rollback ?r ?cr ?wr)) = [DbBegin, TxRollback 0]"
    "calls (snd (Rollback ?r ?cr (snd (Commit ?r ?cr ?wr)))) = [DbBegin, TxCommit 0, TxRollback 0]"
    "calls (snd (Commit ?a ?ca ?wa)) = [DbBegin, TxCommit 0]"
    "calls ?wa = [DbBegin]"
    by (simp_all add: StartTransaction_root StartTransaction_nested Commit_bound Rollback_bound
        Let_def)
  have 1: "DoInTransaction ?r ?cr failing_fn world0
      = (Returns (Some (DriverError ''refused'')), snd (StartTransaction ?r ?cr world0))"
    using DoInTransaction_protocol [of ?r ?cr world0 None "DriverError ''refused''" failing_fn]
      nested by blast
  have 2: "DoInTransaction ?r [] failing_fn world0
      = (Returns (Some (QError ''fn failed'')), snd (Rollback ?r ?cr ?wr))"
    using DoInTransaction_protocol [of ?r "[]" world0 None "QError ''fn failed''" failing_fn
        ?cr ?wr ?wr] start_r by simp
  have 3: "DoInTransaction ?r [] passing_fn world0
      = (Returns (Some (DriverError ''refused'')), snd (Rollback ?r ?cr (snd (Commit ?r ?cr ?wr))))"
    using DoInTransaction_protocol [of ?r "[]" world0 None "DriverError ''refused''" passing_fn
        ?cr ?wr ?wr "snd (Commit ?r ?cr ?wr)"] start_r commit_r by simp
  have 4: "DoInTransaction ?a [] passing_fn world0 = (Returns None, snd (Commit ?a ?ca ?wa))"
    using DoInTransaction_protocol [of ?a "[]" world0 "Some ((transactionKey ?a, NilVal) # ?ca)"
        "DriverError ''refused''" passing_fn ?ca ?wa ?wa "snd (Commit ?a ?ca ?wa)"]
      start_a commit_a by simp
  have u: "ctx_Value [] (transactionKey ?a) = NilVal"
    by simp
  have fnf: "failing_fn ?ca ?wa = (Some (QError ''fn failed''), ?wa)"
    by simp
  have flat: "savePoint (heap ?wa 0) = 0" "tx (heap ?wa 0) = 0"
    by (simp_all add: StartTransaction_root Let_def)
  have 5: "fst (DoInTransaction ?a [] failing_fn world0) = Returns (Some (QError ''fn failed''))
      \<and> calls (snd (DoInTransaction ?a [] failing_fn world0))
          = calls ?wa @ [TxRollback 0]"
    using DoInTransaction_protocol [of ?a "[]" world0 None "QError ''fn failed''" failing_fn
        ?ca ?wa ?wa] u start_a fnf flat by simp
  let ?wl = "snd (StartTransaction ?a ?ca ?wa)"
  have leak: "leaky_fn ?a ?ca ?wa = (Some (QError ''fn failed''), ?wl)"
    by (simp add: leaky_fn_def)
  have open_scope: "savePoint (heap ?wl 0) = 1" "tx (heap ?wl 0) = 0"
    "calls ?wl = [DbBegin, TxExec 0 ''SAVEPOINT SP1'']"
    by (simp_all add: StartTransaction_root StartTransaction_nested Let_def)
  have 6: "calls (snd (DoInTransaction ?a [] (leaky_fn ?a) world0))
      = calls ?wl @ [TxExec 0 ''ROLLBACK TO SAVEPOINT SP1'']"
    using DoInTransaction_protocol [of ?a "[]" world0 None "QError ''fn failed''" "leaky_fn ?a"
        ?ca ?wa ?wl] u start_a leak open_scope(1,2) by simp
  show ?thesis
    unfolding 1 2 3 4 using 5 6 logs open_scope(3) by simp
qed

end
